theory Spec2Isabelle
  imports Complex_Main
begin

section \<open>Data model\<close>

text \<open>
  The ledger core lives in three Express route files over a Prisma store:
  \<^verbatim>\<open>routes/gl.ts\<close> (general ledger), \<^verbatim>\<open>routes/transactions.ts\<close> (transfers) and
  \<^verbatim>\<open>routes/accounts.ts\<close> (account creation). A handler reads the request body, talks to
  the store and either throws (\<^verbatim>\<open>AppError(message, status)\<close>, or an exception of a
  library) or answers. It is modelled as a function from the store to the store after the
  call and the outcome, so that "nothing is written on failure" is a statement about the
  first component and not a convention.

  Monetary values are \<^verbatim>\<open>Prisma.Decimal\<close>s; they are modelled as exact rationals, without
  the precision and rounding of the database column. Instants (\<^verbatim>\<open>new Date()\<close>) are integers
  handed to the handler by its caller. The authenticated user's id (\<^verbatim>\<open>req.user!.id\<close>) is
  the parameter \<open>actor\<close>; the authentication and role middleware that runs before a handler
  is not modelled. Handlers run one at a time: a call sees the store the previous call left.
  The records keep the columns the handlers read or write in the ledger core.
\<close>

datatype error =
    AppError string nat
  | DecimalError
  | RecordNotFound
  | UniqueConstraintFailed

text \<open>
  Request fields of string type are modelled as strings; a field that is absent and a
  field that holds the empty string are both falsy in JavaScript and take the same branch
  of every \<^verbatim>\<open>if (!field)\<close>, so both are written as the empty string.
\<close>

definition truthy :: "string \<Rightarrow> bool" where
  "truthy s = (s \<noteq> [])"

subsection \<open>General ledger entries\<close>

datatype posting_status = pending | posted | reversed

datatype entry_type = debit | credit

record gl_entry =
  gl_id :: string
  entryNumber :: string
  accountCode :: string
  accountName :: string
  gl_type :: entry_type
  gl_amount :: rat
  gl_description :: string
  postingDate :: int
  postingStatus :: posting_status
  postedBy :: "string option"
  postedAt :: "int option"
  reversedBy :: "string option"
  reversedAt :: "int option"
  reversalReason :: "string option"

subsection \<open>Accounts and transactions\<close>

datatype account_status = active | dormant | frozen | closed

record account =
  accountNumber :: string
  customerId :: string
  status :: account_status
  balance :: rat
  availableBalance :: rat

datatype tx_mode = internal | neft | imps | cash

datatype tx_status = tx_pending | completed | failed

record transaction =
  transactionId :: nat
  fromAccountId :: "string option"
  toAccountId :: "string option"
  tx_type :: entry_type
  tx_amount :: rat
  mode :: tx_mode
  tx_status :: tx_status
  tx_description :: "string option"
  reference :: "nat option"
  beneficiaryName :: "string option"
  beneficiaryAccount :: "string option"
  beneficiaryBank :: "string option"
  beneficiaryIfsc :: "string option"
  balanceAfter :: rat
  processedAt :: "int option"

subsection \<open>The store\<close>

text \<open>
  The tables the handlers touch. Accounts are keyed by their primary key; transactions and
  ledger entries are kept in insertion order. The store never deletes a transaction, and the
  identifier the database generates for a new row (\<^verbatim>\<open>transactionId\<close>) is modelled as the
  number of rows already there, which is fresh for that reason.
\<close>

record db =
  accounts :: "string \<rightharpoonup> account"
  transactions :: "transaction list"
  customers :: "string list"
  glEntries :: "gl_entry list"

section \<open>General ledger: \<^verbatim>\<open>routes/gl.ts\<close>\<close>

text \<open>\<^verbatim>\<open>prisma.gLEntry.findUnique({ where: { id } })\<close>\<close>

definition findUniqueGL :: "gl_entry list \<Rightarrow> string \<Rightarrow> gl_entry option" where
  "findUniqueGL es eid = find (\<lambda>e. gl_id e = eid) es"

text \<open>\<^verbatim>\<open>prisma.gLEntry.update({ where: { id }, data })\<close>: the row with that id is rewritten.\<close>

definition updateGL :: "string \<Rightarrow> (gl_entry \<Rightarrow> gl_entry) \<Rightarrow> gl_entry list \<Rightarrow> gl_entry list" where
  "updateGL eid f es = map (\<lambda>e. if gl_id e = eid then f e else e) es"

definition markPosted :: "string \<Rightarrow> int \<Rightarrow> gl_entry \<Rightarrow> gl_entry" where
  "markPosted actor now e =
     e\<lparr>postingStatus := posted, postedBy := Some actor, postedAt := Some now\<rparr>"

definition markReversed :: "string \<Rightarrow> int \<Rightarrow> string \<Rightarrow> gl_entry \<Rightarrow> gl_entry" where
  "markReversed actor now reason e =
     e\<lparr>postingStatus := reversed, reversedBy := Some actor, reversedAt := Some now,
       reversalReason := Some reason\<rparr>"

text \<open>\<^verbatim>\<open>PATCH /api/gl/:id/post\<close>\<close>

definition postGLEntry :: "string \<Rightarrow> int \<Rightarrow> string \<Rightarrow> db \<Rightarrow> db \<times> (error + gl_entry)" where
  "postGLEntry actor now eid s =
     (case findUniqueGL (glEntries s) eid of
        None \<Rightarrow> (s, Inl (AppError ''GL Entry not found'' 404))
      | Some entry \<Rightarrow>
          if postingStatus entry \<noteq> pending
          then (s, Inl (AppError ''Entry is not pending'' 400))
          else (s\<lparr>glEntries := updateGL eid (markPosted actor now) (glEntries s)\<rparr>,
                Inr (markPosted actor now entry)))"

text \<open>\<^verbatim>\<open>PATCH /api/gl/:id/reverse\<close>: the reason is checked before the entry is read.\<close>

definition reverseGLEntry ::
  "string \<Rightarrow> int \<Rightarrow> string \<Rightarrow> string \<Rightarrow> db \<Rightarrow> db \<times> (error + gl_entry)" where
  "reverseGLEntry actor now eid reason s =
     (if \<not> truthy reason then (s, Inl (AppError ''Reversal reason is required'' 400))
      else case findUniqueGL (glEntries s) eid of
        None \<Rightarrow> (s, Inl (AppError ''GL Entry not found'' 404))
      | Some entry \<Rightarrow>
          if postingStatus entry \<noteq> posted
          then (s, Inl (AppError ''Only posted entries can be reversed'' 400))
          else (s\<lparr>glEntries := updateGL eid (markReversed actor now reason) (glEntries s)\<rparr>,
                Inr (markReversed actor now reason entry)))"

text \<open>
  \<^verbatim>\<open>POST /api/gl/batch-post\<close>. \<open>None\<close> is a body whose \<^verbatim>\<open>entryIds\<close> is absent or not an
  array. \<^verbatim>\<open>updateMany\<close> rewrites every row that matches the filter and reports how many
  rows it rewrote.
\<close>

definition batchSelected :: "string list \<Rightarrow> gl_entry \<Rightarrow> bool" where
  "batchSelected ids e = (gl_id e \<in> set ids \<and> postingStatus e = pending)"

definition batchPostGLEntries ::
  "string \<Rightarrow> int \<Rightarrow> string list option \<Rightarrow> db \<Rightarrow> db \<times> (error + nat)" where
  "batchPostGLEntries actor now entryIds s =
     (case entryIds of
        None \<Rightarrow> (s, Inl (AppError ''Entry IDs array is required'' 400))
      | Some ids \<Rightarrow>
          (s\<lparr>glEntries :=
               map (\<lambda>e. if batchSelected ids e then markPosted actor now e else e) (glEntries s)\<rparr>,
           Inr (length (filter (batchSelected ids) (glEntries s)))))"

text \<open>The position of a status on the path pending, posted, reversed.\<close>

fun rank :: "posting_status \<Rightarrow> nat" where
  "rank pending = 0"
| "rank posted = 1"
| "rank reversed = 2"

text \<open>
  Row by row, the second table holds the same entries as the first, each at the same or a
  later position of the path.
\<close>

definition statusAdvances :: "gl_entry list \<Rightarrow> gl_entry list \<Rightarrow> bool" where
  "statusAdvances es es' =
     list_all2 (\<lambda>e e'. gl_id e' = gl_id e \<and> rank (postingStatus e) \<le> rank (postingStatus e'))
       es es'"


subsection \<open>JavaScript numbers\<close>

text \<open>
  The trial balance leaves decimal arithmetic: it converts the sums with \<^verbatim>\<open>toNumber()\<close>,
  adds them with \<^verbatim>\<open>+\<close> and compares the totals with \<^verbatim>\<open>===\<close>. A JavaScript number is an
  IEEE 754 double. A finite double is modelled by the rational it denotes; the two zeros are
  the one value \<open>Fin 0\<close>, since they are \<^verbatim>\<open>===\<close>, differ in a sum only by the sign of a zero
  result and print alike in JSON.

  \<open>round64\<close> is rounding to the nearest double, ties to the even significand. A double has 53
  significant bits; its exponent runs from -1022, below which the spacing stays at
  \<open>2 ^ -1074\<close>, to 1023, and a value that rounds beyond the largest finite double becomes an
  infinity. \<open>floorLog2 x\<close> is the exponent \<open>e\<close> with \<open>2 ^ e \<le> x < 2 ^ (e + 1)\<close> of a positive
  \<open>x\<close>, found from the bit lengths of its numerator and denominator.
\<close>

datatype number = Fin rat | PosInf | NegInf | NaN

function ilog2 :: "int \<Rightarrow> int" where
  "ilog2 n = (if n < 2 then 0 else 1 + ilog2 (n div 2))"
  by pat_completeness auto
termination
  by (relation "measure nat") auto

declare ilog2.simps [simp del]

definition pow2 :: "int \<Rightarrow> rat" where
  "pow2 k = (if 0 \<le> k then 2 ^ nat k else 1 / 2 ^ nat (- k))"

definition floorLog2 :: "rat \<Rightarrow> int" where
  "floorLog2 x =
     (let (p, q) = quotient_of x;
          k = ilog2 p - ilog2 q
      in if pow2 k \<le> x then k else k - 1)"

definition roundHalfEven :: "rat \<Rightarrow> int" where
  "roundHalfEven y =
     (let f = \<lfloor>y\<rfloor>; d = y - of_int f
      in if d < 1 / 2 then f else if 1 / 2 < d then f + 1 else if even f then f else f + 1)"

definition round64 :: "rat \<Rightarrow> number" where
  "round64 x =
     (if x = 0 then Fin 0
      else let e0 = floorLog2 \<bar>x\<bar>;
               e = max e0 (- 1022);
               q = pow2 (e - 52);
               n = roundHalfEven (x / q)
           in if 1024 \<le> e0 \<or> (e0 = 1023 \<and> \<bar>n\<bar> = 9007199254740992)
              then (if 0 < x then PosInf else NegInf)
              else Fin (of_int n * q))"

text \<open>\<^verbatim>\<open>Decimal.prototype.toNumber()\<close>: the double nearest to the decimal.\<close>

definition toNumber :: "rat \<Rightarrow> number" where
  "toNumber x = round64 x"

text \<open>\<^verbatim>\<open>a + b\<close> on numbers: the exact sum, rounded.\<close>

fun jsAdd :: "number \<Rightarrow> number \<Rightarrow> number" where
  "jsAdd NaN _ = NaN"
| "jsAdd _ NaN = NaN"
| "jsAdd PosInf NegInf = NaN"
| "jsAdd NegInf PosInf = NaN"
| "jsAdd PosInf _ = PosInf"
| "jsAdd _ PosInf = PosInf"
| "jsAdd NegInf _ = NegInf"
| "jsAdd _ NegInf = NegInf"
| "jsAdd (Fin a) (Fin b) = round64 (a + b)"

text \<open>\<^verbatim>\<open>a === b\<close> on numbers: \<^verbatim>\<open>NaN\<close> equals nothing.\<close>

fun strictEq :: "number \<Rightarrow> number \<Rightarrow> bool" where
  "strictEq NaN _ = False"
| "strictEq _ NaN = False"
| "strictEq a b = (a = b)"

text \<open>\<^verbatim>\<open>x || 0\<close> on a number: the falsy numbers are 0 and \<^verbatim>\<open>NaN\<close>.\<close>

fun orZero :: "number \<Rightarrow> number" where
  "orZero NaN = Fin 0"
| "orZero x = x"

subsection \<open>The report\<close>

text \<open>
  \<^verbatim>\<open>GET /api/gl/reports/trial-balance\<close>. The query groups the selected entries by
  \<^verbatim>\<open>(accountCode, accountName, type)\<close> and sums the amounts of each group in the database,
  exactly; the handler then folds the groups into one row per account code, in a \<^verbatim>\<open>Map\<close>
  keyed by the account code (an association list in insertion order here), adding numbers.
  The query has no \<^verbatim>\<open>orderBy\<close>, so the database returns the groups in an order of its own:
  \<open>dbOrder\<close> ranks the groups in that order.
\<close>

record tb_group =
  grp_accountCode :: string
  grp_accountName :: string
  grp_type :: entry_type
  grp_sum :: rat

record tb_row =
  row_accountCode :: string
  row_accountName :: string
  row_debit :: number
  row_credit :: number

record tb_report =
  tb_accounts :: "tb_row list"
  total_debit :: number
  total_credit :: number
  balanced :: bool

definition groupKey :: "gl_entry \<Rightarrow> string \<times> string \<times> entry_type" where
  "groupKey e = (accountCode e, accountName e, gl_type e)"

definition mkGroup :: "gl_entry list \<Rightarrow> string \<times> string \<times> entry_type \<Rightarrow> tb_group" where
  "mkGroup es k =
     \<lparr>grp_accountCode = fst k, grp_accountName = fst (snd k), grp_type = snd (snd k),
      grp_sum = sum_list (map gl_amount (filter (\<lambda>e. groupKey e = k) es))\<rparr>"

definition groupBy :: "(tb_group \<Rightarrow> nat) \<Rightarrow> gl_entry list \<Rightarrow> tb_group list" where
  "groupBy dbOrder es = sort_key dbOrder (map (mkGroup es) (remdups (map groupKey es)))"

definition selectedAsOf :: "int \<Rightarrow> gl_entry \<Rightarrow> bool" where
  "selectedAsOf cutoff e = (postingStatus e = posted \<and> postingDate e \<le> cutoff)"

text \<open>
  One iteration of \<^verbatim>\<open>for (const entry of entries)\<close>: create the row when the key is new,
  then add the group's sum (\<^verbatim>\<open>entry._sum.amount?.toNumber() || 0\<close>; the sum of a group is
  never null) to the row's debit or credit.
\<close>

definition addGroup :: "(string \<times> tb_row) list \<Rightarrow> tb_group \<Rightarrow> (string \<times> tb_row) list" where
  "addGroup accountMap g =
     (let key = grp_accountCode g;
          m1 = (if map_of accountMap key = None
                then accountMap @
                  [(key, \<lparr>row_accountCode = grp_accountCode g, row_accountName = grp_accountName g,
                          row_debit = Fin 0, row_credit = Fin 0\<rparr>)]
                else accountMap);
          n = orZero (toNumber (grp_sum g))
      in map (\<lambda>(k, account).
               if k = key
               then (k, if grp_type g = debit
                        then account\<lparr>row_debit := jsAdd (row_debit account) n\<rparr>
                        else account\<lparr>row_credit := jsAdd (row_credit account) n\<rparr>)
               else (k, account)) m1)"

definition trialBalance ::
  "int \<Rightarrow> int option \<Rightarrow> (tb_group \<Rightarrow> nat) \<Rightarrow> db \<Rightarrow> db \<times> tb_report" where
  "trialBalance now asOfDate dbOrder s =
     (let cutoff = (case asOfDate of Some d \<Rightarrow> d | None \<Rightarrow> now);
          entries = groupBy dbOrder (filter (selectedAsOf cutoff) (glEntries s));
          accountMap = foldl addGroup [] entries;
          rows = map snd accountMap;
          totalDebits = foldl (\<lambda>sum a. jsAdd sum (row_debit a)) (Fin 0) rows;
          totalCredits = foldl (\<lambda>sum a. jsAdd sum (row_credit a)) (Fin 0) rows
      in (s, \<lparr>tb_accounts = rows, total_debit = totalDebits, total_credit = totalCredits,
               balanced = strictEq totalDebits totalCredits\<rparr>))"

section \<open>Transfers: \<^verbatim>\<open>routes/transactions.ts\<close>\<close>

text \<open>
  The \<^verbatim>\<open>amount\<close> field of a request body is an untyped JSON value. The handlers apply two
  operations to it: the truthiness test \<^verbatim>\<open>!amount\<close> and the constructor
  \<^verbatim>\<open>new Prisma.Decimal(amount)\<close>. The cases:
  \<^item> \<open>AmtMissing\<close>: absent, \<^verbatim>\<open>null\<close>, \<^verbatim>\<open>false\<close> or the empty string (falsy);
  \<^item> \<open>AmtNumber r\<close>: the JSON number \<open>r\<close> (falsy exactly when \<open>r = 0\<close>);
  \<^item> \<open>AmtString r\<close>: a non-empty string that the constructor reads as the finite decimal
    \<open>r\<close> (truthy, also for \<^verbatim>\<open>"0"\<close>);
  \<^item> \<open>AmtInvalid\<close>: a truthy value on which the constructor throws.
  The strings \<^verbatim>\<open>Infinity\<close>, \<^verbatim>\<open>-Infinity\<close> and \<^verbatim>\<open>NaN\<close>, which the constructor reads as decimals
  that are not finite, have no constructor here.
\<close>

datatype amount_field = AmtMissing | AmtNumber rat | AmtString rat | AmtInvalid

fun amountTruthy :: "amount_field \<Rightarrow> bool" where
  "amountTruthy AmtMissing = False"
| "amountTruthy (AmtNumber r) = (r \<noteq> 0)"
| "amountTruthy (AmtString r) = True"
| "amountTruthy AmtInvalid = True"

fun newDecimal :: "amount_field \<Rightarrow> rat option" where
  "newDecimal AmtMissing = None"
| "newDecimal (AmtNumber r) = Some r"
| "newDecimal (AmtString r) = Some r"
| "newDecimal AmtInvalid = None"

text \<open>
  \<^verbatim>\<open>tx.account.update({ where: { id }, data })\<close> rewrites the row and returns it; it throws
  when there is no such row.
\<close>

definition updateAccount :: "string \<Rightarrow> (account \<Rightarrow> account) \<Rightarrow> db \<Rightarrow> error + (db \<times> account)" where
  "updateAccount aid f s =
     (case accounts s aid of
        None \<Rightarrow> Inl RecordNotFound
      | Some a \<Rightarrow> Inr (s\<lparr>accounts := (accounts s)(aid \<mapsto> f a)\<rparr>, f a))"

definition decrementBoth :: "rat \<Rightarrow> account \<Rightarrow> account" where
  "decrementBoth m a = a\<lparr>balance := balance a - m, availableBalance := availableBalance a - m\<rparr>"

definition incrementBoth :: "rat \<Rightarrow> account \<Rightarrow> account" where
  "incrementBoth m a = a\<lparr>balance := balance a + m, availableBalance := availableBalance a + m\<rparr>"

text \<open>
  \<^verbatim>\<open>tx.transaction.create({ data })\<close>: the row is appended with the identifier the database
  generates, and returned.
\<close>

definition createTransaction :: "transaction \<Rightarrow> db \<Rightarrow> db \<times> transaction" where
  "createTransaction t s =
     (let row = t\<lparr>transactionId := length (transactions s)\<rparr>
      in (s\<lparr>transactions := transactions s @ [row]\<rparr>, row))"

text \<open>\<^verbatim>\<open>prisma.$transaction(async (tx) => ...)\<close>: when the body throws, nothing it wrote stays.\<close>

definition inTransaction :: "(db \<Rightarrow> error + (db \<times> 'a)) \<Rightarrow> db \<Rightarrow> db \<times> (error + 'a)" where
  "inTransaction body s =
     (case body s of
        Inl e \<Rightarrow> (s, Inl e)
      | Inr (s', r) \<Rightarrow> (s', Inr r))"

text \<open>The fields a handler leaves out of \<^verbatim>\<open>data\<close> are null; the id is set on creation.\<close>

definition blankTransaction :: transaction where
  "blankTransaction =
     \<lparr>transactionId = 0, fromAccountId = None, toAccountId = None, tx_type = debit,
      tx_amount = 0, mode = internal, tx_status = tx_pending, tx_description = None,
      reference = None, beneficiaryName = None, beneficiaryAccount = None,
      beneficiaryBank = None, beneficiaryIfsc = None, balanceAfter = 0, processedAt = None\<rparr>"

text \<open>\<^verbatim>\<open>POST /api/transactions/internal\<close>: the body of the \<^verbatim>\<open>$transaction\<close> call.\<close>

definition internalBody ::
  "int \<Rightarrow> string \<Rightarrow> string \<Rightarrow> rat \<Rightarrow> string option \<Rightarrow> db
    \<Rightarrow> error + (db \<times> transaction \<times> transaction)" where
  "internalBody now fromId toId amountDecimal description s =
     (case updateAccount fromId (decrementBoth amountDecimal) s of
        Inl e \<Rightarrow> Inl e
      | Inr (s1, updatedFrom) \<Rightarrow>
     (case updateAccount toId (incrementBoth amountDecimal) s1 of
        Inl e \<Rightarrow> Inl e
      | Inr (s2, updatedTo) \<Rightarrow>
     (let (s3, debitTx) = createTransaction
            (blankTransaction\<lparr>fromAccountId := Some fromId, toAccountId := Some toId,
               tx_type := debit, tx_amount := amountDecimal, mode := internal,
               tx_status := completed, tx_description := description,
               balanceAfter := balance updatedFrom, processedAt := Some now\<rparr>) s2;
          (s4, creditTx) = createTransaction
            (blankTransaction\<lparr>fromAccountId := Some fromId, toAccountId := Some toId,
               tx_type := credit, tx_amount := amountDecimal, mode := internal,
               tx_status := completed, tx_description := description,
               reference := Some (transactionId debitTx),
               balanceAfter := balance updatedTo, processedAt := Some now\<rparr>) s3
      in Inr (s4, debitTx, creditTx))))"

text \<open>
  The handler. The audit-log row it writes after the transfer is outside the tables of \<open>db\<close>.
\<close>

definition transferInternal ::
  "int \<Rightarrow> string \<Rightarrow> string \<Rightarrow> amount_field \<Rightarrow> string option \<Rightarrow> db
    \<Rightarrow> db \<times> (error + transaction \<times> transaction)" where
  "transferInternal now fromId toId amount description s =
     (if \<not> truthy fromId \<or> \<not> truthy toId \<or> \<not> amountTruthy amount
      then (s, Inl (AppError ''From account, to account, and amount are required'' 400))
      else if fromId = toId
      then (s, Inl (AppError ''Cannot transfer to the same account'' 400))
      else case accounts s fromId of
        None \<Rightarrow> (s, Inl (AppError ''Source account not found'' 404))
      | Some fromAccount \<Rightarrow>
      (case accounts s toId of
        None \<Rightarrow> (s, Inl (AppError ''Destination account not found'' 404))
      | Some toAccount \<Rightarrow>
          if status fromAccount \<noteq> active
          then (s, Inl (AppError ''Source account is not active'' 400))
          else if status toAccount \<noteq> active
          then (s, Inl (AppError ''Destination account is not active'' 400))
          else (case newDecimal amount of
            None \<Rightarrow> (s, Inl DecimalError)
          | Some amountDecimal \<Rightarrow>
              if availableBalance fromAccount < amountDecimal
              then (s, Inl (AppError ''Insufficient balance'' 400))
              else inTransaction (internalBody now fromId toId amountDecimal description) s)))"

text \<open>\<^verbatim>\<open>POST /api/transactions/neft\<close>: the deferred interbank rail.\<close>

definition neftBody ::
  "string \<Rightarrow> string \<Rightarrow> string \<Rightarrow> string option \<Rightarrow> string \<Rightarrow> rat \<Rightarrow> string option \<Rightarrow> db
    \<Rightarrow> error + (db \<times> transaction)" where
  "neftBody fromId benAccount benName benBank benIfsc amountDecimal description s =
     (case updateAccount fromId (decrementBoth amountDecimal) s of
        Inl e \<Rightarrow> Inl e
      | Inr (s1, updatedFrom) \<Rightarrow>
          Inr (createTransaction
            (blankTransaction\<lparr>fromAccountId := Some fromId, tx_type := debit,
               tx_amount := amountDecimal, mode := neft, tx_status := tx_pending,
               tx_description := description, beneficiaryName := Some benName,
               beneficiaryAccount := Some benAccount, beneficiaryBank := benBank,
               beneficiaryIfsc := Some benIfsc, balanceAfter := balance updatedFrom\<rparr>) s1))"

definition transferNeft ::
  "string \<Rightarrow> string \<Rightarrow> string \<Rightarrow> string option \<Rightarrow> string \<Rightarrow> amount_field \<Rightarrow> string option \<Rightarrow> db
    \<Rightarrow> db \<times> (error + transaction)" where
  "transferNeft fromId benAccount benName benBank benIfsc amount description s =
     (if \<not> truthy fromId \<or> \<not> truthy benAccount \<or> \<not> truthy benName \<or> \<not> truthy benIfsc
         \<or> \<not> amountTruthy amount
      then (s, Inl (AppError ''Missing required fields for NEFT transfer'' 400))
      else case accounts s fromId of
        None \<Rightarrow> (s, Inl (AppError ''Source account not found'' 404))
      | Some fromAccount \<Rightarrow>
          if status fromAccount \<noteq> active
          then (s, Inl (AppError ''Source account is not active'' 400))
          else (case newDecimal amount of
            None \<Rightarrow> (s, Inl DecimalError)
          | Some amountDecimal \<Rightarrow>
              if availableBalance fromAccount < amountDecimal
              then (s, Inl (AppError ''Insufficient balance'' 400))
              else inTransaction
                (neftBody fromId benAccount benName benBank benIfsc amountDecimal description) s))"

text \<open>
  \<^verbatim>\<open>POST /api/transactions/imps\<close>: the instant interbank rail. The amount is read and held
  against the ceiling before the account is looked up. The message of the limit error holds
  the rupee sign, three bytes in UTF-8.
\<close>

definition impsLimitMessage :: string where
  "impsLimitMessage = ''IMPS maximum limit is '' @ [CHR 0xE2, CHR 0x82, CHR 0xB9] @ ''5,00,000''"

definition impsBody ::
  "int \<Rightarrow> string \<Rightarrow> string \<Rightarrow> string \<Rightarrow> string \<Rightarrow> rat \<Rightarrow> string option \<Rightarrow> db
    \<Rightarrow> error + (db \<times> transaction)" where
  "impsBody now fromId benAccount benName benIfsc amountDecimal description s =
     (case updateAccount fromId (decrementBoth amountDecimal) s of
        Inl e \<Rightarrow> Inl e
      | Inr (s1, updatedFrom) \<Rightarrow>
          Inr (createTransaction
            (blankTransaction\<lparr>fromAccountId := Some fromId, tx_type := debit,
               tx_amount := amountDecimal, mode := imps, tx_status := completed,
               tx_description := description, beneficiaryName := Some benName,
               beneficiaryAccount := Some benAccount, beneficiaryIfsc := Some benIfsc,
               balanceAfter := balance updatedFrom, processedAt := Some now\<rparr>) s1))"

definition transferImps ::
  "int \<Rightarrow> string \<Rightarrow> string \<Rightarrow> string \<Rightarrow> string \<Rightarrow> amount_field \<Rightarrow> string option \<Rightarrow> db
    \<Rightarrow> db \<times> (error + transaction)" where
  "transferImps now fromId benAccount benName benIfsc amount description s =
     (if \<not> truthy fromId \<or> \<not> truthy benAccount \<or> \<not> truthy benName \<or> \<not> truthy benIfsc
         \<or> \<not> amountTruthy amount
      then (s, Inl (AppError ''Missing required fields for IMPS transfer'' 400))
      else case newDecimal amount of
        None \<Rightarrow> (s, Inl DecimalError)
      | Some amountDecimal \<Rightarrow>
          if amountDecimal > 500000
          then (s, Inl (AppError impsLimitMessage 400))
          else (case accounts s fromId of
            None \<Rightarrow> (s, Inl (AppError ''Source account not found'' 404))
          | Some fromAccount \<Rightarrow>
              if status fromAccount \<noteq> active
              then (s, Inl (AppError ''Source account is not active'' 400))
              else if availableBalance fromAccount < amountDecimal
              then (s, Inl (AppError ''Insufficient balance'' 400))
              else inTransaction
                (impsBody now fromId benAccount benName benIfsc amountDecimal description) s))"

section \<open>Account creation: \<^verbatim>\<open>routes/accounts.ts\<close>\<close>

text \<open>
  \<^verbatim>\<open>POST /api/accounts\<close>. \<open>newId\<close> is the primary key and \<open>accNo\<close> the account number
  generated for the row; \<open>initialStatus\<close> is the default of the status column, which the
  schema (not among the sources) declares. \<open>initialDeposit\<close> is \<open>None\<close> when the body has no
  such field, and then defaults to \<open>0\<close>. The account row and the deposit row are written by
  two separate calls, outside any \<^verbatim>\<open>$transaction\<close>.
\<close>

definition createAccount ::
  "string \<Rightarrow> string \<Rightarrow> account_status \<Rightarrow> int \<Rightarrow> string \<Rightarrow> string \<Rightarrow> string \<Rightarrow> rat option \<Rightarrow> db
    \<Rightarrow> db \<times> (error + account)" where
  "createAccount newId accNo initialStatus now custId accType branch initialDepositField s =
     (let initialDeposit = (case initialDepositField of None \<Rightarrow> 0 | Some d \<Rightarrow> d)
      in if \<not> truthy custId \<or> \<not> truthy accType \<or> \<not> truthy branch
         then (s, Inl (AppError ''Customer ID, type, and branch are required'' 400))
         else if custId \<notin> set (customers s)
         then (s, Inl (AppError ''Customer not found'' 404))
         else if accounts s newId \<noteq> None
         then (s, Inl UniqueConstraintFailed)
         else
           (let acct = \<lparr>accountNumber = accNo, customerId = custId, status = initialStatus,
                        balance = initialDeposit, availableBalance = initialDeposit\<rparr>;
                s1 = s\<lparr>accounts := (accounts s)(newId \<mapsto> acct)\<rparr>;
                s2 = (if initialDeposit > 0
                      then fst (createTransaction
                        (blankTransaction\<lparr>toAccountId := Some newId, tx_type := credit,
                           tx_amount := initialDeposit, mode := cash, tx_status := completed,
                           tx_description := Some ''Initial deposit'',
                           balanceAfter := initialDeposit, processedAt := Some now\<rparr>) s1)
                      else s1)
            in (s2, Inr acct)))"

text \<open>The account invariant of the data model.\<close>

definition accountInvariant :: "account \<Rightarrow> bool" where
  "accountInvariant a = (availableBalance a \<le> balance a \<and> 0 \<le> balance a \<and> 0 \<le> availableBalance a)"

definition storeInvariant :: "db \<Rightarrow> bool" where
  "storeInvariant s = (\<forall>i a. accounts s i = Some a \<longrightarrow> accountInvariant a)"


section \<open>Example stores\<close>

definition emptyDb :: db where
  "emptyDb = \<lparr>accounts = Map.empty, transactions = [], customers = [], glEntries = []\<rparr>"

definition mkEntry ::
  "string \<Rightarrow> string \<Rightarrow> entry_type \<Rightarrow> rat \<Rightarrow> int \<Rightarrow> posting_status \<Rightarrow> gl_entry" where
  "mkEntry i code t amt date st =
     \<lparr>gl_id = i, entryNumber = ''GL'' @ i, accountCode = code, accountName = ''Account '' @ code,
      gl_type = t, gl_amount = amt, gl_description = [], postingDate = date,
      postingStatus = st, postedBy = None, postedAt = None, reversedBy = None,
      reversedAt = None, reversalReason = None\<rparr>"

text \<open>A ledger with one pending and one posted entry.\<close>

definition exampleLedger :: db where
  "exampleLedger = emptyDb\<lparr>glEntries :=
     [mkEntry ''e1'' ''1001'' debit 100 10 pending, mkEntry ''e2'' ''2001'' credit 100 10 posted]\<rparr>"

text \<open>
  A bank with the two active accounts of the seed script (balances 150000 and 5000000) and a
  frozen account.
\<close>

definition seedAccount1 :: account where
  "seedAccount1 = \<lparr>accountNumber = ''100100001001'', customerId = ''cust1'', status = active,
                    balance = 150000, availableBalance = 150000\<rparr>"

definition seedAccount2 :: account where
  "seedAccount2 = \<lparr>accountNumber = ''100100001002'', customerId = ''cust2'', status = active,
                    balance = 5000000, availableBalance = 5000000\<rparr>"

definition frozenAccount :: account where
  "frozenAccount = \<lparr>accountNumber = ''100100001003'', customerId = ''cust1'', status = frozen,
                     balance = 100, availableBalance = 100\<rparr>"

definition exampleBank :: db where
  "exampleBank = emptyDb\<lparr>accounts :=
     [''acc1'' \<mapsto> seedAccount1, ''acc2'' \<mapsto> seedAccount2, ''acc3'' \<mapsto> frozenAccount],
     customers := [''cust1'', ''cust2'']\<rparr>"

text \<open>
  Books with four entries posted by day 12 (two of them the seed's opening entries), one
  entry posted on day 50 and one pending entry.
\<close>

definition exampleBooks :: db where
  "exampleBooks = emptyDb\<lparr>glEntries :=
     [mkEntry ''g1'' ''1001'' debit 100000 10 posted,
      mkEntry ''g2'' ''2001'' credit 100000 10 posted,
      mkEntry ''g3'' ''1001'' debit 50 12 posted,
      mkEntry ''g4'' ''1001'' credit 20 12 posted,
      mkEntry ''g5'' ''3001'' debit 70 50 posted,
      mkEntry ''g6'' ''2001'' credit 30 12 pending]\<rparr>"

text \<open>
  Books whose posted debits, 0.10 and 0.20 on two accounts, equal the one posted credit of
  0.30; and books with one posted debit of \<open>2 ^ 53 + 1\<close> and one posted credit of \<open>2 ^ 53\<close>.
\<close>

definition driftBooks :: db where
  "driftBooks = emptyDb\<lparr>glEntries :=
     [mkEntry ''d1'' ''1001'' debit (1 / 10) 10 posted,
      mkEntry ''d2'' ''1002'' debit (2 / 10) 10 posted,
      mkEntry ''d3'' ''2001'' credit (3 / 10) 10 posted]\<rparr>"

definition largeBooks :: db where
  "largeBooks = emptyDb\<lparr>glEntries :=
     [mkEntry ''l1'' ''1001'' debit 9007199254740993 10 posted,
      mkEntry ''l2'' ''2001'' credit 9007199254740992 10 posted]\<rparr>"

section \<open>The entry lifecycle\<close>

lemma findUniqueGL_Some:
  "findUniqueGL es eid = Some e \<Longrightarrow> e \<in> set es \<and> gl_id e = eid"
  unfolding findUniqueGL_def by (auto simp: find_Some_iff)

lemma gl_id_markPosted [simp]: "gl_id (markPosted actor now e) = gl_id e"
  by (simp add: markPosted_def)

lemma gl_id_markReversed [simp]: "gl_id (markReversed actor now r e) = gl_id e"
  by (simp add: markReversed_def)

lemma postingStatus_markPosted [simp]: "postingStatus (markPosted actor now e) = posted"
  by (simp add: markPosted_def)

lemma postingStatus_markReversed [simp]: "postingStatus (markReversed actor now r e) = reversed"
  by (simp add: markReversed_def)

lemma findUniqueGL_updateGL:
  "(\<And>e. gl_id (f e) = gl_id e) \<Longrightarrow>
   findUniqueGL (updateGL eid f es) eid = map_option f (findUniqueGL es eid)"
  unfolding findUniqueGL_def updateGL_def
  by (induction es) auto

lemma unique_entry:
  "distinct (map gl_id es) \<Longrightarrow> findUniqueGL es eid = Some entry \<Longrightarrow> e \<in> set es \<Longrightarrow>
   gl_id e = eid \<Longrightarrow> e = entry"
  by (metis findUniqueGL_Some distinct_map inj_onD)

lemma statusAdvances_refl: "statusAdvances es es"
  unfolding statusAdvances_def by (simp add: list_all2_same)

lemma statusAdvances_updateGL:
  assumes "\<And>e. e \<in> set es \<Longrightarrow> gl_id e = eid \<Longrightarrow>
             gl_id (f e) = gl_id e \<and> rank (postingStatus e) \<le> rank (postingStatus (f e))"
  shows "statusAdvances es (updateGL eid f es)"
  unfolding statusAdvances_def updateGL_def list_all2_map2 list_all2_same
  using assms by auto

lemma post_outcome:
  "postGLEntry actor now eid s =
     (case findUniqueGL (glEntries s) eid of
        None \<Rightarrow> (s, Inl (AppError ''GL Entry not found'' 404))
      | Some entry \<Rightarrow>
          if postingStatus entry = pending
          then (s\<lparr>glEntries := updateGL eid (markPosted actor now) (glEntries s)\<rparr>,
                Inr (markPosted actor now entry))
          else (s, Inl (AppError ''Entry is not pending'' 400)))"
  by (simp add: postGLEntry_def split: option.splits)

lemma post_advances:
  assumes "distinct (map gl_id (glEntries s))"
  shows "statusAdvances (glEntries s) (glEntries (fst (postGLEntry actor now eid s)))"
proof (cases "findUniqueGL (glEntries s) eid")
  case None
  then show ?thesis by (simp add: postGLEntry_def statusAdvances_refl)
next
  case (Some entry)
  show ?thesis
  proof (cases "postingStatus entry = pending")
    case False
    with Some show ?thesis by (simp add: postGLEntry_def statusAdvances_refl)
  next
    case True
    have "statusAdvances (glEntries s) (updateGL eid (markPosted actor now) (glEntries s))"
    proof (rule statusAdvances_updateGL)
      fix e assume "e \<in> set (glEntries s)" "gl_id e = eid"
      with assms Some have "e = entry" by (rule unique_entry)
      with True show "gl_id (markPosted actor now e) = gl_id e \<and>
          rank (postingStatus e) \<le> rank (postingStatus (markPosted actor now e))"
        by simp
    qed
    with Some True show ?thesis by (simp add: postGLEntry_def)
  qed
qed

lemma reverse_advances:
  assumes "distinct (map gl_id (glEntries s))"
  shows "statusAdvances (glEntries s) (glEntries (fst (reverseGLEntry actor now eid reason s)))"
proof (cases "truthy reason")
  case False
  then show ?thesis by (simp add: reverseGLEntry_def statusAdvances_refl)
next
  case tr: True
  show ?thesis
  proof (cases "findUniqueGL (glEntries s) eid")
    case None
    with tr show ?thesis by (simp add: reverseGLEntry_def statusAdvances_refl)
  next
    case (Some entry)
    show ?thesis
    proof (cases "postingStatus entry = posted")
      case False
      with tr Some show ?thesis by (simp add: reverseGLEntry_def statusAdvances_refl)
    next
      case True
      have "statusAdvances (glEntries s)
              (updateGL eid (markReversed actor now reason) (glEntries s))"
      proof (rule statusAdvances_updateGL)
        fix e assume "e \<in> set (glEntries s)" "gl_id e = eid"
        with assms Some have "e = entry" by (rule unique_entry)
        with True show "gl_id (markReversed actor now reason e) = gl_id e \<and>
            rank (postingStatus e) \<le> rank (postingStatus (markReversed actor now reason e))"
          by simp
      qed
      with tr Some True show ?thesis by (simp add: reverseGLEntry_def)
    qed
  qed
qed

lemma batch_advances:
  "statusAdvances (glEntries s) (glEntries (fst (batchPostGLEntries actor now entryIds s)))"
proof (cases entryIds)
  case None
  then show ?thesis by (simp add: batchPostGLEntries_def statusAdvances_refl)
next
  case (Some ids)
  then show ?thesis
    by (simp add: batchPostGLEntries_def statusAdvances_def list_all2_map2 list_all2_same
        batchSelected_def)
qed

text \<open>
  Claim C5. Posting succeeds exactly from \<open>pending\<close> and leaves the entry \<open>posted\<close>, so a
  second post of the same entry fails with "Entry is not pending" (status 400) and writes
  nothing. Reversal succeeds exactly from \<open>posted\<close> with a non-empty reason and leaves the
  entry \<open>reversed\<close> with that reason; from any other status it fails with "Only posted entries
  can be reversed" and writes nothing; without a reason it fails with "Reversal reason is
  required" before the entry is even read, and the store is the one it was given. On a table
  with unique ids neither operation moves any entry backward on the path
  pending, posted, reversed, and neither does a batch post.
\<close>

theorem gl_lifecycle:
  "(snd (postGLEntry actor now eid s) = Inr e' \<longrightarrow>
      (\<exists>e. findUniqueGL (glEntries s) eid = Some e \<and> postingStatus e = pending)
      \<and> postingStatus e' = posted
      \<and> findUniqueGL (glEntries (fst (postGLEntry actor now eid s))) eid = Some e'
      \<and> postGLEntry actorB nowB eid (fst (postGLEntry actor now eid s)) =
          (fst (postGLEntry actor now eid s), Inl (AppError ''Entry is not pending'' 400)))
   \<and> (findUniqueGL (glEntries s) eid = Some e \<and> postingStatus e = pending \<longrightarrow>
        snd (postGLEntry actor now eid s) = Inr (markPosted actor now e))
   \<and> (findUniqueGL (glEntries s) eid = Some e \<and> postingStatus e \<noteq> pending \<longrightarrow>
        postGLEntry actor now eid s = (s, Inl (AppError ''Entry is not pending'' 400)))
   \<and> (snd (reverseGLEntry actor now eid reason s) = Inr e' \<longrightarrow>
        truthy reason
        \<and> (\<exists>e. findUniqueGL (glEntries s) eid = Some e \<and> postingStatus e = posted)
        \<and> postingStatus e' = reversed \<and> reversalReason e' = Some reason
        \<and> findUniqueGL (glEntries (fst (reverseGLEntry actor now eid reason s))) eid = Some e')
   \<and> (truthy reason \<and> findUniqueGL (glEntries s) eid = Some e \<and> postingStatus e = posted \<longrightarrow>
        snd (reverseGLEntry actor now eid reason s) = Inr (markReversed actor now reason e))
   \<and> (truthy reason \<and> findUniqueGL (glEntries s) eid = Some e \<and> postingStatus e \<noteq> posted \<longrightarrow>
        reverseGLEntry actor now eid reason s =
          (s, Inl (AppError ''Only posted entries can be reversed'' 400)))
   \<and> (\<not> truthy reason \<longrightarrow>
        reverseGLEntry actor now eid reason s =
          (s, Inl (AppError ''Reversal reason is required'' 400)))
   \<and> (distinct (map gl_id (glEntries s)) \<longrightarrow>
        statusAdvances (glEntries s) (glEntries (fst (postGLEntry actor now eid s)))
        \<and> statusAdvances (glEntries s) (glEntries (fst (reverseGLEntry actor now eid reason s))))
   \<and> statusAdvances (glEntries s) (glEntries (fst (batchPostGLEntries actor now entryIds s)))"
proof -
  have p1: "snd (postGLEntry actor now eid s) = Inr e' \<longrightarrow>
      (\<exists>e. findUniqueGL (glEntries s) eid = Some e \<and> postingStatus e = pending)
      \<and> postingStatus e' = posted
      \<and> findUniqueGL (glEntries (fst (postGLEntry actor now eid s))) eid = Some e'
      \<and> postGLEntry actorB nowB eid (fst (postGLEntry actor now eid s)) =
          (fst (postGLEntry actor now eid s), Inl (AppError ''Entry is not pending'' 400))"
    by (auto simp: post_outcome findUniqueGL_updateGL split: option.splits if_splits)
  have p2: "findUniqueGL (glEntries s) eid = Some e \<and> postingStatus e = pending \<longrightarrow>
        snd (postGLEntry actor now eid s) = Inr (markPosted actor now e)"
    by (simp add: post_outcome)
  have p3: "findUniqueGL (glEntries s) eid = Some e \<and> postingStatus e \<noteq> pending \<longrightarrow>
        postGLEntry actor now eid s = (s, Inl (AppError ''Entry is not pending'' 400))"
    by (simp add: post_outcome)
  have r1: "snd (reverseGLEntry actor now eid reason s) = Inr e' \<longrightarrow>
        truthy reason
        \<and> (\<exists>e. findUniqueGL (glEntries s) eid = Some e \<and> postingStatus e = posted)
        \<and> postingStatus e' = reversed \<and> reversalReason e' = Some reason
        \<and> findUniqueGL (glEntries (fst (reverseGLEntry actor now eid reason s))) eid = Some e'"
    by (auto simp: reverseGLEntry_def findUniqueGL_updateGL markReversed_def
        split: option.splits if_splits)
  have r2: "truthy reason \<and> findUniqueGL (glEntries s) eid = Some e \<and> postingStatus e = posted \<longrightarrow>
        snd (reverseGLEntry actor now eid reason s) = Inr (markReversed actor now reason e)"
    by (simp add: reverseGLEntry_def)
  have r3: "truthy reason \<and> findUniqueGL (glEntries s) eid = Some e \<and> postingStatus e \<noteq> posted \<longrightarrow>
        reverseGLEntry actor now eid reason s =
          (s, Inl (AppError ''Only posted entries can be reversed'' 400))"
    by (simp add: reverseGLEntry_def)
  have r4: "\<not> truthy reason \<longrightarrow>
        reverseGLEntry actor now eid reason s =
          (s, Inl (AppError ''Reversal reason is required'' 400))"
    by (simp add: reverseGLEntry_def)
  have m: "distinct (map gl_id (glEntries s)) \<longrightarrow>
        statusAdvances (glEntries s) (glEntries (fst (postGLEntry actor now eid s)))
        \<and> statusAdvances (glEntries s) (glEntries (fst (reverseGLEntry actor now eid reason s)))"
    using post_advances reverse_advances by blast
  have b: "statusAdvances (glEntries s) (glEntries (fst (batchPostGLEntries actor now entryIds s)))"
    by (rule batch_advances)
  from p1 p2 p3 r1 r2 r3 r4 m b show ?thesis by blast
qed

theorem gl_lifecycle_witness:
  "snd (postGLEntry ''u1'' 20 ''e1'' exampleLedger) =
     Inr (markPosted ''u1'' 20 (mkEntry ''e1'' ''1001'' debit 100 10 pending))
   \<and> postGLEntry ''u2'' 21 ''e1'' (fst (postGLEntry ''u1'' 20 ''e1'' exampleLedger)) =
       (fst (postGLEntry ''u1'' 20 ''e1'' exampleLedger), Inl (AppError ''Entry is not pending'' 400))
   \<and> postGLEntry ''u1'' 20 ''e2'' exampleLedger =
       (exampleLedger, Inl (AppError ''Entry is not pending'' 400))
   \<and> snd (reverseGLEntry ''u1'' 20 ''e2'' ''keyed twice'' exampleLedger) =
       Inr (markReversed ''u1'' 20 ''keyed twice'' (mkEntry ''e2'' ''2001'' credit 100 10 posted))
   \<and> reverseGLEntry ''u1'' 20 ''e1'' ''keyed twice'' exampleLedger =
       (exampleLedger, Inl (AppError ''Only posted entries can be reversed'' 400))
   \<and> reverseGLEntry ''u1'' 20 ''e2'' [] exampleLedger =
       (exampleLedger, Inl (AppError ''Reversal reason is required'' 400))
   \<and> distinct (map gl_id (glEntries exampleLedger))
   \<and> statusAdvances (glEntries exampleLedger)
       (glEntries (fst (postGLEntry ''u1'' 20 ''e1'' exampleLedger)))
   \<and> statusAdvances (glEntries exampleLedger)
       (glEntries (fst (reverseGLEntry ''u1'' 20 ''e2'' ''keyed twice'' exampleLedger)))
   \<and> statusAdvances (glEntries exampleLedger)
       (glEntries (fst (batchPostGLEntries ''u1'' 20 (Some [''e1'', ''e2'']) exampleLedger)))"
proof -
  let ?e1 = "mkEntry ''e1'' ''1001'' debit 100 10 pending"
  let ?e2 = "mkEntry ''e2'' ''2001'' credit 100 10 posted"
  have d: "distinct (map gl_id (glEntries exampleLedger))"
    by (simp add: exampleLedger_def emptyDb_def mkEntry_def)
  have f1: "findUniqueGL (glEntries exampleLedger) ''e1'' = Some ?e1"
    by (simp add: exampleLedger_def emptyDb_def mkEntry_def findUniqueGL_def)
  have f2: "findUniqueGL (glEntries exampleLedger) ''e2'' = Some ?e2"
    by (simp add: exampleLedger_def emptyDb_def mkEntry_def findUniqueGL_def)
  have s1: "postingStatus ?e1 = pending" "postingStatus ?e1 \<noteq> posted"
    and s2: "postingStatus ?e2 = posted" "postingStatus ?e2 \<noteq> pending"
    by (simp_all add: mkEntry_def)
  have t: "truthy ''keyed twice''" "\<not> truthy []"
    by (simp_all add: truthy_def)
  note a = gl_lifecycle [where s = exampleLedger and eid = "''e1''" and actor = "''u1''"
      and now = 20 and actorB = "''u2''" and nowB = 21 and reason = "''keyed twice''"
      and e = ?e1 and e' = "markPosted ''u1'' 20 ?e1"]
  note b = gl_lifecycle [where s = exampleLedger and eid = "''e2''" and actor = "''u1''"
      and now = 20 and reason = "''keyed twice''" and e = ?e2]
  note c = gl_lifecycle [where s = exampleLedger and eid = "''e2''" and actor = "''u1''"
      and now = 20 and reason = "[]"]
  have w1: "snd (postGLEntry ''u1'' 20 ''e1'' exampleLedger) = Inr (markPosted ''u1'' 20 ?e1)"
    using a f1 s1 by blast
  have w2: "postGLEntry ''u2'' 21 ''e1'' (fst (postGLEntry ''u1'' 20 ''e1'' exampleLedger)) =
       (fst (postGLEntry ''u1'' 20 ''e1'' exampleLedger), Inl (AppError ''Entry is not pending'' 400))"
    using a w1 by blast
  have w3: "postGLEntry ''u1'' 20 ''e2'' exampleLedger =
       (exampleLedger, Inl (AppError ''Entry is not pending'' 400))"
    using b f2 s2 by blast
  have w4: "snd (reverseGLEntry ''u1'' 20 ''e2'' ''keyed twice'' exampleLedger) =
       Inr (markReversed ''u1'' 20 ''keyed twice'' ?e2)"
    using b f2 s2 t by blast
  have w5: "reverseGLEntry ''u1'' 20 ''e1'' ''keyed twice'' exampleLedger =
       (exampleLedger, Inl (AppError ''Only posted entries can be reversed'' 400))"
    using a f1 s1 t by blast
  have w6: "reverseGLEntry ''u1'' 20 ''e2'' [] exampleLedger =
       (exampleLedger, Inl (AppError ''Reversal reason is required'' 400))"
    using c t by blast
  have w7: "statusAdvances (glEntries exampleLedger)
       (glEntries (fst (postGLEntry ''u1'' 20 ''e1'' exampleLedger)))"
    using a d by blast
  have w8: "statusAdvances (glEntries exampleLedger)
       (glEntries (fst (reverseGLEntry ''u1'' 20 ''e2'' ''keyed twice'' exampleLedger)))"
    using b d by blast
  have w9: "statusAdvances (glEntries exampleLedger)
       (glEntries (fst (batchPostGLEntries ''u1'' 20 (Some [''e1'', ''e2'']) exampleLedger)))"
    using conjunct2 [OF conjunct2 [OF conjunct2 [OF conjunct2 [OF conjunct2 [OF conjunct2
      [OF conjunct2 [OF conjunct2 [OF gl_lifecycle]]]]]]]] .
  from w1 w2 w3 w4 w5 w6 d w7 w8 w9 show ?thesis by blast
qed


section \<open>Batch posting\<close>

lemma batch_count_card:
  assumes "distinct (map gl_id es)"
  shows "length (filter (batchSelected ids) es) =
         card {i \<in> set ids. \<exists>e \<in> set es. gl_id e = i \<and> postingStatus e = pending}"
proof -
  from assms have d: "distinct es" and inj: "inj_on gl_id (set es)"
    by (simp_all add: distinct_map)
  have "length (filter (batchSelected ids) es) = card {e \<in> set es. batchSelected ids e}"
    using d by (simp add: distinct_length_filter Int_def conj_commute)
  also have "\<dots> = card (gl_id ` {e \<in> set es. batchSelected ids e})"
    by (rule card_image [symmetric]) (rule inj_on_subset [OF inj], auto)
  also have "gl_id ` {e \<in> set es. batchSelected ids e} =
      {i \<in> set ids. \<exists>e \<in> set es. gl_id e = i \<and> postingStatus e = pending}"
    by (auto simp: batchSelected_def)
  finally show ?thesis .
qed

lemma batchSelected_cong: "set ids = set ids' \<Longrightarrow> batchSelected ids = batchSelected ids'"
  by (simp add: batchSelected_def fun_eq_iff)

lemma batch_none_selected_after:
  "filter (batchSelected ids)
     (map (\<lambda>e. if batchSelected ids e then markPosted actor now e else e) es) = []"
  by (induction es) (auto simp: batchSelected_def)

lemma batch_map_idle:
  "filter (batchSelected ids) es = [] \<Longrightarrow>
   map (\<lambda>e. if batchSelected ids e then markPosted actor now e else e) es = es"
  by (induction es) (auto split: if_splits)

text \<open>
  Claim C7. For every list of ids the batch raises no error. It rewrites to \<open>posted\<close> exactly
  the rows whose id is listed and whose status is \<open>pending\<close> and leaves every other row as it
  is; ids that match no row select nothing. The count it returns is the number of rows it
  selected, which is the number of rows whose status changed. A second call with the same
  ids changes nothing and returns 0.
\<close>

theorem batch_post:
  "fst (batchPostGLEntries actor now (Some ids) s) =
     s\<lparr>glEntries := map (\<lambda>e. if gl_id e \<in> set ids \<and> postingStatus e = pending
                               then markPosted actor now e else e) (glEntries s)\<rparr>
   \<and> snd (batchPostGLEntries actor now (Some ids) s) =
       Inr (length (filter (\<lambda>e. gl_id e \<in> set ids \<and> postingStatus e = pending) (glEntries s)))
   \<and> snd (batchPostGLEntries actor now (Some ids) s) =
       Inr (length (filter (\<lambda>(e, e'). postingStatus e' \<noteq> postingStatus e)
              (zip (glEntries s) (glEntries (fst (batchPostGLEntries actor now (Some ids) s))))))
   \<and> batchPostGLEntries actorB nowB (Some ids) (fst (batchPostGLEntries actor now (Some ids) s)) =
       (fst (batchPostGLEntries actor now (Some ids) s), Inr 0)"
proof -
  let ?f = "\<lambda>e. if batchSelected ids e then markPosted actor now e else e"
  have a: "fst (batchPostGLEntries actor now (Some ids) s) = s\<lparr>glEntries := map ?f (glEntries s)\<rparr>"
    by (simp add: batchPostGLEntries_def)
  have b: "snd (batchPostGLEntries actor now (Some ids) s) =
      Inr (length (filter (batchSelected ids) (glEntries s)))"
    by (simp add: batchPostGLEntries_def)
  have c: "length (filter (\<lambda>(e, e'). postingStatus e' \<noteq> postingStatus e) (zip es (map ?f es))) =
      length (filter (batchSelected ids) es)" for es
    by (induction es) (auto simp: batchSelected_def)
  have idle: "map (\<lambda>e. if batchSelected ids e then markPosted actorB nowB e else e)
      (map ?f (glEntries s)) = map ?f (glEntries s)"
    by (rule batch_map_idle) (rule batch_none_selected_after)
  have d: "batchPostGLEntries actorB nowB (Some ids) (s\<lparr>glEntries := map ?f (glEntries s)\<rparr>) =
      (s\<lparr>glEntries := map ?f (glEntries s)\<rparr>, Inr 0)"
    by (simp add: batchPostGLEntries_def batch_none_selected_after idle del: map_map)
  have sel: "batchSelected ids = (\<lambda>e. gl_id e \<in> set ids \<and> postingStatus e = pending)"
    by (simp add: batchSelected_def fun_eq_iff)
  show ?thesis
    unfolding a b using c d by (simp add: sel)
qed

text \<open>
  On a pending entry \<open>e1\<close>, a posted entry \<open>e2\<close> and an id \<open>e3\<close> that matches no row, the batch
  posts \<open>e1\<close> only and returns 1; repeated, it returns 0 and changes nothing.
\<close>

theorem batch_post_witness:
  "fst (batchPostGLEntries ''u1'' 20 (Some [''e1'', ''e2'', ''e3'']) exampleLedger) =
     exampleLedger\<lparr>glEntries :=
       [markPosted ''u1'' 20 (mkEntry ''e1'' ''1001'' debit 100 10 pending),
        mkEntry ''e2'' ''2001'' credit 100 10 posted]\<rparr>
   \<and> snd (batchPostGLEntries ''u1'' 20 (Some [''e1'', ''e2'', ''e3'']) exampleLedger) = Inr 1
   \<and> batchPostGLEntries ''u2'' 21 (Some [''e1'', ''e2'', ''e3''])
         (fst (batchPostGLEntries ''u1'' 20 (Some [''e1'', ''e2'', ''e3'']) exampleLedger)) =
       (fst (batchPostGLEntries ''u1'' 20 (Some [''e1'', ''e2'', ''e3'']) exampleLedger), Inr 0)"
proof -
  note a = batch_post [where actor = "''u1''" and now = 20 and ids = "[''e1'', ''e2'', ''e3'']"
      and s = exampleLedger and actorB = "''u2''" and nowB = 21]
  have g: "glEntries exampleLedger =
      [mkEntry ''e1'' ''1001'' debit 100 10 pending, mkEntry ''e2'' ''2001'' credit 100 10 posted]"
    by (simp add: exampleLedger_def emptyDb_def)
  have i: "gl_id (mkEntry ''e1'' ''1001'' debit 100 10 pending) = ''e1''"
      "postingStatus (mkEntry ''e1'' ''1001'' debit 100 10 pending) = pending"
      "postingStatus (mkEntry ''e2'' ''2001'' credit 100 10 posted) = posted"
    by (simp_all add: mkEntry_def)
  have w1: "fst (batchPostGLEntries ''u1'' 20 (Some [''e1'', ''e2'', ''e3'']) exampleLedger) =
     exampleLedger\<lparr>glEntries :=
       [markPosted ''u1'' 20 (mkEntry ''e1'' ''1001'' debit 100 10 pending),
        mkEntry ''e2'' ''2001'' credit 100 10 posted]\<rparr>"
    using conjunct1 [OF a] by (simp add: g i)
  have w2: "snd (batchPostGLEntries ''u1'' 20 (Some [''e1'', ''e2'', ''e3'']) exampleLedger) = Inr 1"
    using conjunct1 [OF conjunct2 [OF a]] by (simp add: g i)
  from w1 w2 a show ?thesis by blast
qed

text \<open>
  Claim C9. The outcome of the batch (the table written and the count returned) depends only
  on the set of the listed ids: two lists with the same elements, in any order and with any
  repetitions, give the same result. On a table with unique ids the count is the number of
  distinct listed ids that name a pending entry.
\<close>

theorem batch_post_set:
  "(set ids = set ids' \<longrightarrow>
      batchPostGLEntries actor now (Some ids) s = batchPostGLEntries actor now (Some ids') s)
   \<and> (distinct (map gl_id (glEntries s)) \<longrightarrow>
      snd (batchPostGLEntries actor now (Some ids) s) =
        Inr (card {i \<in> set ids. \<exists>e \<in> set (glEntries s). gl_id e = i \<and> postingStatus e = pending}))"
  by (auto simp: batchPostGLEntries_def batch_count_card dest: batchSelected_cong)


theorem batch_post_set_witness:
  "set [''e1'', ''e1'', ''e2''] = set [''e2'', ''e1'']
   \<and> batchPostGLEntries ''u1'' 20 (Some [''e1'', ''e1'', ''e2'']) exampleLedger =
       batchPostGLEntries ''u1'' 20 (Some [''e2'', ''e1'']) exampleLedger
   \<and> distinct (map gl_id (glEntries exampleLedger))
   \<and> snd (batchPostGLEntries ''u1'' 20 (Some [''e1'', ''e1'', ''e2'']) exampleLedger) =
       Inr (card {i \<in> set [''e1'', ''e1'', ''e2''].
             \<exists>e \<in> set (glEntries exampleLedger). gl_id e = i \<and> postingStatus e = pending})
   \<and> snd (batchPostGLEntries ''u1'' 20 (Some [''e1'', ''e1'', ''e2'']) exampleLedger) = Inr 1"
proof -
  note a = batch_post_set [where ids = "[''e1'', ''e1'', ''e2'']" and ids' = "[''e2'', ''e1'']"
      and actor = "''u1''" and now = 20 and s = exampleLedger]
  have h1: "set [''e1'', ''e1'', ''e2''] = set [''e2'', ''e1'']"
    by auto
  have h2: "distinct (map gl_id (glEntries exampleLedger))"
    by (simp add: exampleLedger_def emptyDb_def mkEntry_def)
  have w: "snd (batchPostGLEntries ''u1'' 20 (Some [''e1'', ''e1'', ''e2'']) exampleLedger) = Inr 1"
    by (simp add: batchPostGLEntries_def batchSelected_def exampleLedger_def emptyDb_def
        mkEntry_def)
  from a h1 h2 w show ?thesis by blast
qed


section \<open>The trial balance\<close>

text \<open>
  The pieces of \<open>round64\<close>: \<open>floorLog2\<close> finds the binade of a positive rational, and
  \<open>roundHalfEven\<close> moves to an integer at distance at most one half.
\<close>

lemma pow2_powi: "pow2 k = 2 powi k"
  by (simp add: pow2_def power_int_def inverse_eq_divide power_one_over)

lemma ilog2_bounds:
  "1 \<le> n \<Longrightarrow> 0 \<le> ilog2 n \<and> 2 ^ nat (ilog2 n) \<le> n \<and> n < 2 * 2 ^ nat (ilog2 n)"
proof (induction n rule: ilog2.induct)
  case (1 n)
  show ?case
  proof (cases "n < 2")
    case True
    with "1.prems" have "n = 1" by simp
    then show ?thesis by (simp add: ilog2.simps)
  next
    case False
    then have "1 \<le> n div 2" by simp
    with "1.IH" [OF False] have ih: "0 \<le> ilog2 (n div 2)"
      "2 ^ nat (ilog2 (n div 2)) \<le> n div 2" "n div 2 < 2 * 2 ^ nat (ilog2 (n div 2))"
      by simp_all
    have eq: "ilog2 n = 1 + ilog2 (n div 2)"
      using False by (subst ilog2.simps) simp
    have p: "(2::int) ^ nat (1 + ilog2 (n div 2)) = 2 * 2 ^ nat (ilog2 (n div 2))"
      using ih(1) by (simp add: nat_add_distrib)
    from ih show ?thesis
      unfolding eq p by auto
  qed
qed

lemma floorLog2_bounds:
  assumes "0 < x"
  shows "pow2 (floorLog2 x) \<le> x \<and> x < pow2 (floorLog2 x + 1)"
proof -
  obtain p q where pq: "quotient_of x = (p, q)" by (cases "quotient_of x")
  then have q: "0 < q" and x: "x = of_int p / of_int q"
    by (simp_all add: quotient_of_denom_pos quotient_of_div)
  with assms have p: "0 < p"
    by (simp add: zero_less_divide_iff)
  define a where "a = ilog2 p"
  define b where "b = ilog2 q"
  from ilog2_bounds [of p] p have pa: "0 \<le> a" "2 ^ nat a \<le> p" "p < 2 * 2 ^ nat a"
    by (simp_all add: a_def)
  from ilog2_bounds [of q] q have qb: "0 \<le> b" "2 ^ nat b \<le> q" "q < 2 * 2 ^ nat b"
    by (simp_all add: b_def)
  have ra: "(2::rat) powi a \<le> of_int p" "of_int p < (2::rat) powi (a + 1)"
  proof -
    have "(of_int (2 ^ nat a) :: rat) \<le> of_int p" using pa(2) by (simp only: of_int_le_iff)
    then show "(2::rat) powi a \<le> of_int p" using pa(1) by (simp add: power_int_def)
    have "(of_int p :: rat) < of_int (2 * 2 ^ nat a)" using pa(3) by (simp only: of_int_less_iff)
    then show "of_int p < (2::rat) powi (a + 1)"
      using pa(1) by (simp add: power_int_def nat_add_distrib)
  qed
  have rb: "(2::rat) powi b \<le> of_int q" "of_int q < (2::rat) powi (b + 1)"
  proof -
    have "(of_int (2 ^ nat b) :: rat) \<le> of_int q" using qb(2) by (simp only: of_int_le_iff)
    then show "(2::rat) powi b \<le> of_int q" using qb(1) by (simp add: power_int_def)
    have "(of_int q :: rat) < of_int (2 * 2 ^ nat b)" using qb(3) by (simp only: of_int_less_iff)
    then show "of_int q < (2::rat) powi (b + 1)"
      using qb(1) by (simp add: power_int_def nat_add_distrib)
  qed
  have qpos: "(0::rat) < of_int q" using q by simp
  have up: "x < 2 powi (a - b + 1)"
  proof -
    have "x < 2 powi (a + 1) / 2 powi b"
      unfolding x using ra(2) rb(1) p
      by (intro frac_less) auto
    also have "\<dots> = 2 powi (a - b + 1)"
      by (simp add: power_int_diff [symmetric] algebra_simps)
    finally show ?thesis .
  qed
  have low: "2 powi (a - b - 1) < x"
  proof -
    have "2 powi a / 2 powi (b + 1) < x"
      unfolding x using ra(1) rb(2) qpos
      by (intro frac_less2) auto
    moreover have "(2::rat) powi a / 2 powi (b + 1) = 2 powi (a - b - 1)"
      by (simp add: power_int_diff [symmetric] algebra_simps)
    ultimately show ?thesis by simp
  qed
  have fl: "floorLog2 x = (if 2 powi (a - b) \<le> x then a - b else a - b - 1)"
    by (simp add: floorLog2_def pq a_def b_def pow2_powi)
  show ?thesis
    unfolding fl pow2_powi using up low by (auto simp: less_imp_le not_le)
qed


lemma roundHalfEven_near: "\<bar>of_int (roundHalfEven y) - y\<bar> \<le> 1 / 2"
proof -
  have "of_int \<lfloor>y\<rfloor> \<le> y" "y < of_int \<lfloor>y\<rfloor> + 1"
    by linarith+
  then show ?thesis
    by (auto simp: roundHalfEven_def Let_def abs_le_iff)
qed


lemma groupBy_codes: "grp_accountCode ` set (groupBy dbOrder es) = accountCode ` set es"
  by (force simp: groupBy_def mkGroup_def groupKey_def image_iff)

lemma keys_addGroup:
  "map fst (addGroup m g) =
     (if grp_accountCode g \<in> fst ` set m then map fst m else map fst m @ [grp_accountCode g])"
  by (auto simp: addGroup_def Let_def map_of_eq_None_iff case_prod_unfold o_def
      intro!: map_idI)

lemma keys_foldl_addGroup:
  "distinct (map fst m) \<Longrightarrow>
   distinct (map fst (foldl addGroup m gs))
   \<and> set (map fst (foldl addGroup m gs)) = fst ` set m \<union> grp_accountCode ` set gs"
proof (induction gs arbitrary: m)
  case Nil
  then show ?case by simp
next
  case (Cons g gs)
  have d: "distinct (map fst (addGroup m g))"
    using Cons.prems by (simp add: keys_addGroup)
  have "set (map fst (addGroup m g)) = insert (grp_accountCode g) (fst ` set m)"
    unfolding keys_addGroup by auto
  then have k: "fst ` set (addGroup m g) = insert (grp_accountCode g) (fst ` set m)"
    by simp
  from Cons.IH [OF d] show ?case
    unfolding foldl_Cons set_map k by auto
qed

lemma keyed_addGroup:
  "\<forall>(k, a) \<in> set m. row_accountCode a = k \<Longrightarrow>
   \<forall>(k, a) \<in> set (addGroup m g). row_accountCode a = k"
  by (auto simp: addGroup_def Let_def split: if_splits)

lemma keyed_foldl:
  "\<forall>(k, a) \<in> set m. row_accountCode a = k \<Longrightarrow>
   \<forall>(k, a) \<in> set (foldl addGroup m gs). row_accountCode a = k"
proof (induction gs arbitrary: m)
  case Nil
  then show ?case by simp
next
  case (Cons g gs)
  from Cons.IH [OF keyed_addGroup [OF Cons.prems]] show ?case by simp
qed

text \<open>
  What holds of every report, whatever the order of the groups: the store is returned as it
  was given, there is exactly one row for each account code among the selected entries, the
  totals are the rows' debits and credits added as numbers from 0 in row order, and
  \<open>balanced\<close> is the comparison of the two totals as numbers.
\<close>

lemma trial_balance_shape:
  assumes "cutoff = (case asOfDate of Some d \<Rightarrow> d | None \<Rightarrow> now)"
    and "sel = filter (\<lambda>e. postingStatus e = posted \<and> postingDate e \<le> cutoff) (glEntries s)"
    and "trialBalance now asOfDate dbOrder s = (s', r)"
  shows "s' = s"
    and "distinct (map row_accountCode (tb_accounts r))"
    and "set (map row_accountCode (tb_accounts r)) = accountCode ` set sel"
    and "total_debit r = foldl jsAdd (Fin 0) (map row_debit (tb_accounts r))"
    and "total_credit r = foldl jsAdd (Fin 0) (map row_credit (tb_accounts r))"
    and "balanced r = strictEq (total_debit r) (total_credit r)"
proof -
  define m where "m = foldl addGroup [] (groupBy dbOrder sel)"
  have sel: "sel = filter (selectedAsOf cutoff) (glEntries s)"
    using assms(2) by (simp add: selectedAsOf_def [abs_def])
  have res: "s' = s" "tb_accounts r = map snd m"
    "total_debit r = foldl (\<lambda>sum a. jsAdd sum (row_debit a)) (Fin 0) (map snd m)"
    "total_credit r = foldl (\<lambda>sum a. jsAdd sum (row_credit a)) (Fin 0) (map snd m)"
    "balanced r = strictEq (total_debit r) (total_credit r)"
    using assms(3) unfolding trialBalance_def Let_def assms(1) [symmetric] sel [symmetric]
      m_def [symmetric]
    by auto
  have k: "distinct (map fst m) \<and>
      set (map fst m) = fst ` set ([] :: (string \<times> tb_row) list)
        \<union> grp_accountCode ` set (groupBy dbOrder sel)"
    unfolding m_def by (rule keys_foldl_addGroup) simp
  have keyed: "\<forall>(k, a) \<in> set m. row_accountCode a = k"
    unfolding m_def by (rule keyed_foldl) simp
  have codes: "map row_accountCode (map snd m) = map fst m"
    using keyed by (auto simp: case_prod_unfold)
  show "s' = s" by (rule res(1))
  show "distinct (map row_accountCode (tb_accounts r))"
    unfolding res(2) codes using k by simp
  show "set (map row_accountCode (tb_accounts r)) = accountCode ` set sel"
    unfolding res(2) codes using k by (simp add: groupBy_codes)
  show "total_debit r = foldl jsAdd (Fin 0) (map row_debit (tb_accounts r))"
    unfolding res(2,3) by (simp add: foldl_map)
  show "total_credit r = foldl jsAdd (Fin 0) (map row_credit (tb_accounts r))"
    unfolding res(2,4) by (simp add: foldl_map)
  show "balanced r = strictEq (total_debit r) (total_credit r)" by (rule res(5))
qed

lemma drift_exact_totals:
  "sum_list (map gl_amount (filter (\<lambda>e. gl_type e = debit) (glEntries driftBooks))) = 3 / 10"
  "sum_list (map gl_amount (filter (\<lambda>e. gl_type e = credit) (glEntries driftBooks))) = 3 / 10"
  "sum_list (map gl_amount (filter (\<lambda>e. gl_type e = debit) (glEntries largeBooks))) =
     9007199254740993"
  "sum_list (map gl_amount (filter (\<lambda>e. gl_type e = credit) (glEntries largeBooks))) =
     9007199254740992"
  by (simp_all add: driftBooks_def largeBooks_def emptyDb_def mkEntry_def)

lemma drift_report:
  "snd (trialBalance 0 (Some 20) (\<lambda>g. 0) driftBooks) =
     \<lparr>tb_accounts =
        [\<lparr>row_accountCode = ''1001'', row_accountName = ''Account 1001'',
          row_debit = Fin (3602879701896397 / 36028797018963968), row_credit = Fin 0\<rparr>,
         \<lparr>row_accountCode = ''1002'', row_accountName = ''Account 1002'',
          row_debit = Fin (3602879701896397 / 18014398509481984), row_credit = Fin 0\<rparr>,
         \<lparr>row_accountCode = ''2001'', row_accountName = ''Account 2001'',
          row_debit = Fin 0, row_credit = Fin (5404319552844595 / 18014398509481984)\<rparr>],
      total_debit = Fin (1351079888211149 / 4503599627370496),
      total_credit = Fin (5404319552844595 / 18014398509481984),
      balanced = False\<rparr>"
  by code_simp

lemma drift_report_credit_first:
  "balanced (snd (trialBalance 0 (Some 20)
      (\<lambda>g. if grp_type g = credit then 0 else if grp_accountCode g = ''1002'' then 1 else 2)
      driftBooks)) = False"
  by code_simp

lemma large_report:
  "snd (trialBalance 0 (Some 20) (\<lambda>g. 0) largeBooks) =
     \<lparr>tb_accounts =
        [\<lparr>row_accountCode = ''1001'', row_accountName = ''Account 1001'',
          row_debit = Fin 9007199254740992, row_credit = Fin 0\<rparr>,
         \<lparr>row_accountCode = ''2001'', row_accountName = ''Account 2001'',
          row_debit = Fin 0, row_credit = Fin 9007199254740992\<rparr>],
      total_debit = Fin 9007199254740992,
      total_credit = Fin 9007199254740992,
      balanced = True\<rparr>"
  by code_simp

text \<open>
  Claim C6 at a failing input. In \<open>driftBooks\<close> the posted debits (0.10 and 0.20) and the
  posted credit (0.30) have the same exact total, 3/10. The handler converts each sum to a
  double and adds doubles: the debit total is 0.30000000000000004 (the double
  \<open>1351079888211149 / 2 ^ 52\<close>), the credit total is the double nearest to 0.3, and \<open>balanced\<close>
  is false, with the groups in the order of the entries as well as with the credit group
  first. In \<open>largeBooks\<close> the exact totals differ by 1, both convert to the double
  \<open>2 ^ 53\<close>, and \<open>balanced\<close> is true.
\<close>

theorem trial_balance_float_drift:
  "sum_list (map gl_amount (filter (\<lambda>e. gl_type e = debit) (glEntries driftBooks))) =
     sum_list (map gl_amount (filter (\<lambda>e. gl_type e = credit) (glEntries driftBooks)))
   \<and> total_debit (snd (trialBalance 0 (Some 20) (\<lambda>g. 0) driftBooks)) =
       Fin (1351079888211149 / 4503599627370496)
   \<and> total_credit (snd (trialBalance 0 (Some 20) (\<lambda>g. 0) driftBooks)) =
       Fin (5404319552844595 / 18014398509481984)
   \<and> balanced (snd (trialBalance 0 (Some 20) (\<lambda>g. 0) driftBooks)) = False
   \<and> balanced (snd (trialBalance 0 (Some 20)
        (\<lambda>g. if grp_type g = credit then 0 else if grp_accountCode g = ''1002'' then 1 else 2)
        driftBooks)) = False
   \<and> sum_list (map gl_amount (filter (\<lambda>e. gl_type e = debit) (glEntries largeBooks))) \<noteq>
       sum_list (map gl_amount (filter (\<lambda>e. gl_type e = credit) (glEntries largeBooks)))
   \<and> balanced (snd (trialBalance 0 (Some 20) (\<lambda>g. 0) largeBooks)) = True"
  unfolding drift_exact_totals drift_report drift_report_credit_first large_report
  by simp

theorem trial_balance_float_drift_witness:
  "balanced (snd (trialBalance 0 (Some 20) (\<lambda>g. 0) driftBooks)) = False
   \<and> balanced (snd (trialBalance 0 (Some 20) (\<lambda>g. 0) largeBooks)) = True"
  using trial_balance_float_drift by blast

text \<open>
  Claim C10. When no entry is posted with a posting date at or before the as-of date, the
  report has no rows, both totals are 0 and \<open>balanced\<close> is true, whatever the order of the
  database; the handler does not fail.
\<close>

theorem trial_balance_empty:
  assumes "\<forall>e \<in> set (glEntries s).
     \<not> (postingStatus e = posted
        \<and> postingDate e \<le> (case asOfDate of Some d \<Rightarrow> d | None \<Rightarrow> now))"
  shows "trialBalance now asOfDate dbOrder s =
     (s, \<lparr>tb_accounts = [], total_debit = Fin 0, total_credit = Fin 0, balanced = True\<rparr>)"
proof -
  have "filter (selectedAsOf (case asOfDate of Some d \<Rightarrow> d | None \<Rightarrow> now)) (glEntries s) = []"
    using assms by (auto simp: selectedAsOf_def filter_empty_conv)
  then show ?thesis
    by (simp add: trialBalance_def groupBy_def Let_def)
qed

theorem trial_balance_empty_witness:
  "\<not> (\<exists>e \<in> set (glEntries exampleBooks). postingStatus e = posted \<and> postingDate e \<le> 5)
   \<and> trialBalance 0 (Some 5) (\<lambda>g. 0) exampleBooks =
       (exampleBooks,
        \<lparr>tb_accounts = [], total_debit = Fin 0, total_credit = Fin 0, balanced = True\<rparr>)"
proof -
  have n: "\<not> (\<exists>e \<in> set (glEntries exampleBooks). postingStatus e = posted \<and> postingDate e \<le> 5)"
    by (simp add: exampleBooks_def emptyDb_def mkEntry_def)
  then have h: "\<forall>e \<in> set (glEntries exampleBooks).
      \<not> (postingStatus e = posted \<and> postingDate e \<le> (case Some 5 of Some d \<Rightarrow> d | None \<Rightarrow> 0))"
    by simp
  from n trial_balance_empty [OF h] show ?thesis by blast
qed


section \<open>Internal transfers\<close>

lemma internal_success:
  assumes "truthy fromId" "truthy toId" "amountTruthy amount" "newDecimal amount = Some m"
    and "fromId \<noteq> toId"
    and "accounts s fromId = Some A" "accounts s toId = Some B"
    and "status A = active" "status B = active"
    and "m \<le> availableBalance A"
  shows "transferInternal now fromId toId amount description s =
    (s\<lparr>accounts := (accounts s)(fromId \<mapsto> decrementBoth m A, toId \<mapsto> incrementBoth m B),
       transactions := transactions s @
         [blankTransaction\<lparr>transactionId := length (transactions s),
            fromAccountId := Some fromId, toAccountId := Some toId,
            tx_type := debit, tx_amount := m, mode := internal, tx_status := completed,
            tx_description := description, balanceAfter := balance A - m,
            processedAt := Some now\<rparr>,
          blankTransaction\<lparr>transactionId := Suc (length (transactions s)),
            fromAccountId := Some fromId, toAccountId := Some toId,
            tx_type := credit, tx_amount := m, mode := internal, tx_status := completed,
            tx_description := description, reference := Some (length (transactions s)),
            balanceAfter := balance B + m, processedAt := Some now\<rparr>]\<rparr>,
     Inr (blankTransaction\<lparr>transactionId := length (transactions s),
            fromAccountId := Some fromId, toAccountId := Some toId,
            tx_type := debit, tx_amount := m, mode := internal, tx_status := completed,
            tx_description := description, balanceAfter := balance A - m,
            processedAt := Some now\<rparr>,
          blankTransaction\<lparr>transactionId := Suc (length (transactions s)),
            fromAccountId := Some fromId, toAccountId := Some toId,
            tx_type := credit, tx_amount := m, mode := internal, tx_status := completed,
            tx_description := description, reference := Some (length (transactions s)),
            balanceAfter := balance B + m, processedAt := Some now\<rparr>))"
  using assms
  by (simp add: transferInternal_def inTransaction_def internalBody_def updateAccount_def
      createTransaction_def decrementBoth_def incrementBoth_def blankTransaction_def Let_def)


lemma exampleBank_accounts:
  "accounts exampleBank ''acc1'' = Some seedAccount1"
  "accounts exampleBank ''acc2'' = Some seedAccount2"
  "accounts exampleBank ''acc3'' = Some frozenAccount"
  "transactions exampleBank = []"
  by (simp_all add: exampleBank_def emptyDb_def)

lemma example_fields:
  "truthy ''acc1''" "truthy ''acc2''" "truthy ''acc3''"
  "''acc1'' \<noteq> ''acc2''" "''acc1'' \<noteq> ''acc3''" "''acc2'' \<noteq> ''acc1''"
  "status seedAccount1 = active" "status seedAccount2 = active"
  "status frozenAccount \<noteq> active"
  "balance seedAccount1 = 150000" "availableBalance seedAccount1 = 150000"
  "balance seedAccount2 = 5000000" "availableBalance seedAccount2 = 5000000"
  by (simp_all add: truthy_def seedAccount1_def seedAccount2_def frozenAccount_def)

lemma positive_amount_truthy:
  "newDecimal amount = Some m \<Longrightarrow> 0 < m \<Longrightarrow> amountTruthy amount"
  by (cases amount) auto

text \<open>
  Claim C1. Let the request name two distinct accounts \<open>A\<close> and \<open>B\<close>, both active, and carry
  an amount that reads as the positive decimal \<open>m\<close>, with \<open>m\<close> at most the available balance of
  \<open>A\<close>. Then the transfer succeeds: balance and available balance of \<open>A\<close> go down by \<open>m\<close>,
  those of \<open>B\<close> go up by \<open>m\<close>, no other account changes, and exactly two rows are appended
  to the transactions, a debit leg and a credit leg between the same two accounts, both with
  mode \<open>internal\<close> and status \<open>completed\<close>. The legs are distinct rows tied by the
  cross-reference of the pair: the credit leg's \<open>reference\<close> is the debit leg's
  \<open>transactionId\<close>. The debit leg's \<open>balanceAfter\<close> is the new balance of \<open>A\<close> and the credit
  leg's the new balance of \<open>B\<close>.
\<close>

theorem transfer_internal_applies:
  assumes "truthy fromId" "truthy toId" "newDecimal amount = Some m" "0 < m"
    and "fromId \<noteq> toId"
    and "accounts s fromId = Some A" "accounts s toId = Some B"
    and "status A = active" "status B = active"
    and "m \<le> availableBalance A"
  shows "\<exists>s' d c A' B'.
      transferInternal now fromId toId amount description s = (s', Inr (d, c))
    \<and> accounts s' fromId = Some A'
    \<and> balance A' = balance A - m \<and> availableBalance A' = availableBalance A - m
    \<and> accounts s' toId = Some B'
    \<and> balance B' = balance B + m \<and> availableBalance B' = availableBalance B + m
    \<and> (\<forall>i. i \<noteq> fromId \<and> i \<noteq> toId \<longrightarrow> accounts s' i = accounts s i)
    \<and> transactions s' = transactions s @ [d, c]
    \<and> tx_type d = debit \<and> tx_type c = credit
    \<and> mode d = internal \<and> mode c = internal
    \<and> tx_status d = completed \<and> tx_status c = completed
    \<and> tx_amount d = m \<and> tx_amount c = m
    \<and> fromAccountId d = Some fromId \<and> toAccountId d = Some toId
    \<and> fromAccountId c = Some fromId \<and> toAccountId c = Some toId
    \<and> reference c = Some (transactionId d)
    \<and> transactionId d \<noteq> transactionId c
    \<and> balanceAfter d = balance A' \<and> balanceAfter c = balance B'"
proof -
  have t: "amountTruthy amount"
    using assms(3,4) by (rule positive_amount_truthy)
  show ?thesis
    unfolding internal_success [OF assms(1,2) t assms(3) assms(5-10)]
    using assms(5)
    by (simp add: decrementBoth_def incrementBoth_def blankTransaction_def)
qed

theorem transfer_internal_applies_witness:
  "truthy ''acc1'' \<and> truthy ''acc2''
   \<and> newDecimal (AmtNumber 5000) = Some 5000 \<and> (0::rat) < 5000 \<and> ''acc1'' \<noteq> ''acc2''
   \<and> accounts exampleBank ''acc1'' = Some seedAccount1
   \<and> accounts exampleBank ''acc2'' = Some seedAccount2
   \<and> status seedAccount1 = active \<and> status seedAccount2 = active
   \<and> 5000 \<le> availableBalance seedAccount1
   \<and> (\<exists>s' d c A' B'.
      transferInternal 7 ''acc1'' ''acc2'' (AmtNumber 5000) None exampleBank = (s', Inr (d, c))
    \<and> accounts s' ''acc1'' = Some A'
    \<and> balance A' = balance seedAccount1 - 5000
    \<and> availableBalance A' = availableBalance seedAccount1 - 5000
    \<and> accounts s' ''acc2'' = Some B'
    \<and> balance B' = balance seedAccount2 + 5000
    \<and> availableBalance B' = availableBalance seedAccount2 + 5000
    \<and> (\<forall>i. i \<noteq> ''acc1'' \<and> i \<noteq> ''acc2'' \<longrightarrow> accounts s' i = accounts exampleBank i)
    \<and> transactions s' = transactions exampleBank @ [d, c]
    \<and> tx_type d = debit \<and> tx_type c = credit
    \<and> mode d = internal \<and> mode c = internal
    \<and> tx_status d = completed \<and> tx_status c = completed
    \<and> tx_amount d = 5000 \<and> tx_amount c = 5000
    \<and> fromAccountId d = Some ''acc1'' \<and> toAccountId d = Some ''acc2''
    \<and> fromAccountId c = Some ''acc1'' \<and> toAccountId c = Some ''acc2''
    \<and> reference c = Some (transactionId d)
    \<and> transactionId d \<noteq> transactionId c
    \<and> balanceAfter d = balance A' \<and> balanceAfter c = balance B')"
proof -
  have h: "truthy ''acc1''" "truthy ''acc2''"
    "newDecimal (AmtNumber 5000) = Some 5000" "(0::rat) < 5000" "''acc1'' \<noteq> ''acc2''"
    "accounts exampleBank ''acc1'' = Some seedAccount1"
    "accounts exampleBank ''acc2'' = Some seedAccount2"
    "status seedAccount1 = active" "status seedAccount2 = active"
    "5000 \<le> availableBalance seedAccount1"
    by (simp_all add: example_fields exampleBank_accounts)
  note t = transfer_internal_applies [OF h, where now = 7 and description = None]
  from h t show ?thesis by (intro conjI)
qed

text \<open>
  Claim C3, as the code has it. When the amount read from the request exceeds the available
  balance of the source account, the transfer fails and the store is the one it was given:
  no balance changes and no row is written. The error is "Insufficient balance" (status 400)
  when the request passes the checks the handler makes first, that is when both ids and the
  amount are present, the accounts are distinct, the destination exists and both accounts
  are active; otherwise the error is that of the first check that fails.
\<close>

theorem transfer_internal_insufficient:
  assumes "accounts s fromId = Some A" "newDecimal amount = Some m" "availableBalance A < m"
  shows "(\<exists>e. transferInternal now fromId toId amount description s = (s, Inl e))
    \<and> (truthy fromId \<and> truthy toId \<and> amountTruthy amount \<and> fromId \<noteq> toId
        \<and> accounts s toId = Some B \<and> status A = active \<and> status B = active \<longrightarrow>
        transferInternal now fromId toId amount description s =
          (s, Inl (AppError ''Insufficient balance'' 400)))"
  using assms by (auto simp: transferInternal_def split: option.splits)

theorem transfer_internal_insufficient_witness:
  "accounts exampleBank ''acc1'' = Some seedAccount1
   \<and> newDecimal (AmtNumber 200000) = Some 200000
   \<and> availableBalance seedAccount1 < 200000
   \<and> truthy ''acc1'' \<and> truthy ''acc2'' \<and> amountTruthy (AmtNumber 200000) \<and> ''acc1'' \<noteq> ''acc2''
   \<and> accounts exampleBank ''acc2'' = Some seedAccount2
   \<and> status seedAccount1 = active \<and> status seedAccount2 = active
   \<and> transferInternal 7 ''acc1'' ''acc2'' (AmtNumber 200000) None exampleBank =
       (exampleBank, Inl (AppError ''Insufficient balance'' 400))"
proof -
  have h: "accounts exampleBank ''acc1'' = Some seedAccount1"
    "newDecimal (AmtNumber 200000) = Some 200000"
    "availableBalance seedAccount1 < 200000"
    by (simp_all add: example_fields exampleBank_accounts)
  have g: "truthy ''acc1''" "truthy ''acc2''" "amountTruthy (AmtNumber 200000)"
    "''acc1'' \<noteq> ''acc2''" "accounts exampleBank ''acc2'' = Some seedAccount2"
    "status seedAccount1 = active" "status seedAccount2 = active"
    by (simp_all add: example_fields exampleBank_accounts)
  note t = transfer_internal_insufficient [OF h, where now = 7 and description = None
      and toId = "''acc2''" and B = seedAccount2]
  from h g t show ?thesis by blast
qed

text \<open>
  Claim C3 as stated fails when an earlier check fires: a transfer of 200000 from \<open>acc1\<close>
  (available 150000) to the frozen \<open>acc3\<close> fails with "Destination account is not active".
\<close>

theorem transfer_internal_insufficient_counterexample:
  "accounts exampleBank ''acc1'' = Some seedAccount1
   \<and> availableBalance seedAccount1 < 200000
   \<and> transferInternal 7 ''acc1'' ''acc3'' (AmtNumber 200000) None exampleBank =
       (exampleBank, Inl (AppError ''Destination account is not active'' 400))
   \<and> AppError ''Destination account is not active'' 400 \<noteq> AppError ''Insufficient balance'' 400"
  by (simp add: transferInternal_def example_fields exampleBank_accounts)


section \<open>Interbank transfers\<close>

lemma imps_success:
  assumes "truthy fromId" "truthy benAccount" "truthy benName" "truthy benIfsc"
    and "amountTruthy amount" "newDecimal amount = Some m" "m \<le> 500000"
    and "accounts s fromId = Some A" "status A = active" "m \<le> availableBalance A"
  shows "transferImps now fromId benAccount benName benIfsc amount description s =
    (s\<lparr>accounts := (accounts s)(fromId \<mapsto> decrementBoth m A),
       transactions := transactions s @
         [blankTransaction\<lparr>transactionId := length (transactions s),
            fromAccountId := Some fromId, tx_type := debit, tx_amount := m, mode := imps,
            tx_status := completed, tx_description := description,
            beneficiaryName := Some benName, beneficiaryAccount := Some benAccount,
            beneficiaryIfsc := Some benIfsc, balanceAfter := balance A - m,
            processedAt := Some now\<rparr>]\<rparr>,
     Inr (blankTransaction\<lparr>transactionId := length (transactions s),
            fromAccountId := Some fromId, tx_type := debit, tx_amount := m, mode := imps,
            tx_status := completed, tx_description := description,
            beneficiaryName := Some benName, beneficiaryAccount := Some benAccount,
            beneficiaryIfsc := Some benIfsc, balanceAfter := balance A - m,
            processedAt := Some now\<rparr>))"
  using assms
  by (simp add: transferImps_def inTransaction_def impsBody_def updateAccount_def
      createTransaction_def decrementBoth_def blankTransaction_def Let_def)

lemma neft_success:
  assumes "truthy fromId" "truthy benAccount" "truthy benName" "truthy benIfsc"
    and "amountTruthy amount" "newDecimal amount = Some m"
    and "accounts s fromId = Some A" "status A = active" "m \<le> availableBalance A"
  shows "transferNeft fromId benAccount benName benBank benIfsc amount description s =
    (s\<lparr>accounts := (accounts s)(fromId \<mapsto> decrementBoth m A),
       transactions := transactions s @
         [blankTransaction\<lparr>transactionId := length (transactions s),
            fromAccountId := Some fromId, tx_type := debit, tx_amount := m, mode := neft,
            tx_status := tx_pending, tx_description := description,
            beneficiaryName := Some benName, beneficiaryAccount := Some benAccount,
            beneficiaryBank := benBank, beneficiaryIfsc := Some benIfsc,
            balanceAfter := balance A - m\<rparr>]\<rparr>,
     Inr (blankTransaction\<lparr>transactionId := length (transactions s),
            fromAccountId := Some fromId, tx_type := debit, tx_amount := m, mode := neft,
            tx_status := tx_pending, tx_description := description,
            beneficiaryName := Some benName, beneficiaryAccount := Some benAccount,
            beneficiaryBank := benBank, beneficiaryIfsc := Some benIfsc,
            balanceAfter := balance A - m\<rparr>))"
  using assms
  by (simp add: transferNeft_def inTransaction_def neftBody_def updateAccount_def
      createTransaction_def decrementBoth_def blankTransaction_def Let_def)

text \<open>
  Claim C8. An IMPS request that carries its required fields and an amount above 500000
  fails with the limit error (status 400) whatever the store holds, since the ceiling is
  checked before the account is read; the store is the one it was given, so no balance
  changes and no row is written. With an amount of at most 500000, an active source account
  and sufficient available balance, the transfer succeeds: exactly one row is appended, a
  debit with mode \<open>imps\<close> and status \<open>completed\<close> whose \<open>balanceAfter\<close> is the new balance of
  the source, whose balance and available balance go down by the amount.
\<close>

theorem imps_ceiling:
  "(truthy fromId \<and> truthy benAccount \<and> truthy benName \<and> truthy benIfsc
      \<and> amountTruthy amount \<and> newDecimal amount = Some m \<and> 500000 < m \<longrightarrow>
      transferImps now fromId benAccount benName benIfsc amount description s =
        (s, Inl (AppError impsLimitMessage 400)))
   \<and> (truthy fromId \<and> truthy benAccount \<and> truthy benName \<and> truthy benIfsc
      \<and> amountTruthy amount \<and> newDecimal amount = Some m \<and> m \<le> 500000
      \<and> accounts s fromId = Some A \<and> status A = active \<and> m \<le> availableBalance A \<longrightarrow>
      (\<exists>s' t A'.
         transferImps now fromId benAccount benName benIfsc amount description s = (s', Inr t)
       \<and> transactions s' = transactions s @ [t]
       \<and> tx_type t = debit \<and> tx_status t = completed \<and> mode t = imps \<and> tx_amount t = m
       \<and> fromAccountId t = Some fromId
       \<and> accounts s' fromId = Some A'
       \<and> balance A' = balance A - m \<and> availableBalance A' = availableBalance A - m
       \<and> balanceAfter t = balance A'
       \<and> (\<forall>i. i \<noteq> fromId \<longrightarrow> accounts s' i = accounts s i)))"
proof (intro conjI impI)
  assume "truthy fromId \<and> truthy benAccount \<and> truthy benName \<and> truthy benIfsc
      \<and> amountTruthy amount \<and> newDecimal amount = Some m \<and> 500000 < m"
  then show "transferImps now fromId benAccount benName benIfsc amount description s =
        (s, Inl (AppError impsLimitMessage 400))"
    by (simp add: transferImps_def)
next
  assume h: "truthy fromId \<and> truthy benAccount \<and> truthy benName \<and> truthy benIfsc
      \<and> amountTruthy amount \<and> newDecimal amount = Some m \<and> m \<le> 500000
      \<and> accounts s fromId = Some A \<and> status A = active \<and> m \<le> availableBalance A"
  then have "transferImps now fromId benAccount benName benIfsc amount description s =
    (s\<lparr>accounts := (accounts s)(fromId \<mapsto> decrementBoth m A),
       transactions := transactions s @
         [blankTransaction\<lparr>transactionId := length (transactions s),
            fromAccountId := Some fromId, tx_type := debit, tx_amount := m, mode := imps,
            tx_status := completed, tx_description := description,
            beneficiaryName := Some benName, beneficiaryAccount := Some benAccount,
            beneficiaryIfsc := Some benIfsc, balanceAfter := balance A - m,
            processedAt := Some now\<rparr>]\<rparr>,
     Inr (blankTransaction\<lparr>transactionId := length (transactions s),
            fromAccountId := Some fromId, tx_type := debit, tx_amount := m, mode := imps,
            tx_status := completed, tx_description := description,
            beneficiaryName := Some benName, beneficiaryAccount := Some benAccount,
            beneficiaryIfsc := Some benIfsc, balanceAfter := balance A - m,
            processedAt := Some now\<rparr>))"
    by (intro imps_success) simp_all
  then show "\<exists>s' t A'.
         transferImps now fromId benAccount benName benIfsc amount description s = (s', Inr t)
       \<and> transactions s' = transactions s @ [t]
       \<and> tx_type t = debit \<and> tx_status t = completed \<and> mode t = imps \<and> tx_amount t = m
       \<and> fromAccountId t = Some fromId
       \<and> accounts s' fromId = Some A'
       \<and> balance A' = balance A - m \<and> availableBalance A' = availableBalance A - m
       \<and> balanceAfter t = balance A'
       \<and> (\<forall>i. i \<noteq> fromId \<longrightarrow> accounts s' i = accounts s i)"
    by (simp add: decrementBoth_def blankTransaction_def)
qed


theorem imps_ceiling_witness:
  "truthy ''acc2'' \<and> truthy ''50100200300'' \<and> truthy ''R Iyer'' \<and> truthy ''HDFC0000123''
   \<and> amountTruthy (AmtNumber 500001) \<and> newDecimal (AmtNumber 500001) = Some 500001
   \<and> (500000::rat) < 500001
   \<and> transferImps 7 ''acc2'' ''50100200300'' ''R Iyer'' ''HDFC0000123'' (AmtNumber 500001) None
        exampleBank = (exampleBank, Inl (AppError impsLimitMessage 400))
   \<and> amountTruthy (AmtNumber 500000) \<and> newDecimal (AmtNumber 500000) = Some 500000
   \<and> (500000::rat) \<le> 500000
   \<and> accounts exampleBank ''acc2'' = Some seedAccount2 \<and> status seedAccount2 = active
   \<and> 500000 \<le> availableBalance seedAccount2
   \<and> (\<exists>s' t A'.
         transferImps 7 ''acc2'' ''50100200300'' ''R Iyer'' ''HDFC0000123'' (AmtNumber 500000) None
           exampleBank = (s', Inr t)
       \<and> transactions s' = transactions exampleBank @ [t]
       \<and> tx_type t = debit \<and> tx_status t = completed \<and> mode t = imps \<and> tx_amount t = 500000
       \<and> fromAccountId t = Some ''acc2''
       \<and> accounts s' ''acc2'' = Some A'
       \<and> balance A' = balance seedAccount2 - 500000
       \<and> availableBalance A' = availableBalance seedAccount2 - 500000
       \<and> balanceAfter t = balance A'
       \<and> (\<forall>i. i \<noteq> ''acc2'' \<longrightarrow> accounts s' i = accounts exampleBank i))"
proof -
  have f: "truthy ''acc2''" "truthy ''50100200300''" "truthy ''R Iyer''" "truthy ''HDFC0000123''"
    by (simp_all add: truthy_def)
  have over: "amountTruthy (AmtNumber 500001)" "newDecimal (AmtNumber 500001) = Some 500001"
    "(500000::rat) < 500001"
    by simp_all
  have at: "amountTruthy (AmtNumber 500000)" "newDecimal (AmtNumber 500000) = Some 500000"
    "(500000::rat) \<le> 500000"
    "accounts exampleBank ''acc2'' = Some seedAccount2" "status seedAccount2 = active"
    "500000 \<le> availableBalance seedAccount2"
    by (simp_all add: example_fields exampleBank_accounts)
  note a = imps_ceiling [where fromId = "''acc2''" and benAccount = "''50100200300''"
      and benName = "''R Iyer''" and benIfsc = "''HDFC0000123''" and now = 7
      and description = None and s = exampleBank and amount = "AmtNumber 500001"
      and m = 500001]
  note b = imps_ceiling [where fromId = "''acc2''" and benAccount = "''50100200300''"
      and benName = "''R Iyer''" and benIfsc = "''HDFC0000123''" and now = 7
      and description = None and s = exampleBank and amount = "AmtNumber 500000"
      and m = 500000 and A = seedAccount2]
  have w1: "transferImps 7 ''acc2'' ''50100200300'' ''R Iyer'' ''HDFC0000123'' (AmtNumber 500001) None
        exampleBank = (exampleBank, Inl (AppError impsLimitMessage 400))"
    using conjunct1 [OF a] f over by blast
  have w2: "\<exists>s' t A'.
         transferImps 7 ''acc2'' ''50100200300'' ''R Iyer'' ''HDFC0000123'' (AmtNumber 500000) None
           exampleBank = (s', Inr t)
       \<and> transactions s' = transactions exampleBank @ [t]
       \<and> tx_type t = debit \<and> tx_status t = completed \<and> mode t = imps \<and> tx_amount t = 500000
       \<and> fromAccountId t = Some ''acc2''
       \<and> accounts s' ''acc2'' = Some A'
       \<and> balance A' = balance seedAccount2 - 500000
       \<and> availableBalance A' = availableBalance seedAccount2 - 500000
       \<and> balanceAfter t = balance A'
       \<and> (\<forall>i. i \<noteq> ''acc2'' \<longrightarrow> accounts s' i = accounts exampleBank i)"
    using conjunct2 [OF b] f at by (elim impE) (intro conjI, assumption+)
  from f over at w1 w2 show ?thesis by (intro conjI)
qed


section \<open>Amounts and the account invariant\<close>

lemma internal_outcome:
  "(\<exists>e. transferInternal now fromId toId amount description s = (s, Inl e))
   \<or> (\<exists>m A B. truthy fromId \<and> truthy toId \<and> amountTruthy amount \<and> newDecimal amount = Some m
        \<and> fromId \<noteq> toId \<and> accounts s fromId = Some A \<and> accounts s toId = Some B
        \<and> status A = active \<and> status B = active \<and> m \<le> availableBalance A)"
  by (auto simp: transferInternal_def split: option.splits)

lemma neft_outcome:
  "(\<exists>e. transferNeft fromId benAccount benName benBank benIfsc amount description s = (s, Inl e))
   \<or> (\<exists>m A. truthy fromId \<and> truthy benAccount \<and> truthy benName \<and> truthy benIfsc
        \<and> amountTruthy amount \<and> newDecimal amount = Some m
        \<and> accounts s fromId = Some A \<and> status A = active \<and> m \<le> availableBalance A)"
  by (auto simp: transferNeft_def split: option.splits)

lemma imps_outcome:
  "(\<exists>e. transferImps now fromId benAccount benName benIfsc amount description s = (s, Inl e))
   \<or> (\<exists>m A. truthy fromId \<and> truthy benAccount \<and> truthy benName \<and> truthy benIfsc
        \<and> amountTruthy amount \<and> newDecimal amount = Some m \<and> m \<le> 500000
        \<and> accounts s fromId = Some A \<and> status A = active \<and> m \<le> availableBalance A)"
  by (auto simp: transferImps_def split: option.splits)

lemma invariant_debit:
  "accountInvariant A \<Longrightarrow> 0 \<le> m \<Longrightarrow> m \<le> availableBalance A \<Longrightarrow>
   accountInvariant (decrementBoth m A)"
  by (simp add: accountInvariant_def decrementBoth_def)

lemma invariant_credit:
  "accountInvariant B \<Longrightarrow> 0 \<le> m \<Longrightarrow> accountInvariant (incrementBoth m B)"
  by (simp add: accountInvariant_def incrementBoth_def)

lemma invariant_kept_internal:
  assumes "storeInvariant s" and "\<And>m. newDecimal amount = Some m \<Longrightarrow> 0 \<le> m"
  shows "storeInvariant (fst (transferInternal now fromId toId amount description s))"
  using internal_outcome [of now fromId toId amount description s]
proof (elim disjE exE conjE)
  fix e assume "transferInternal now fromId toId amount description s = (s, Inl e)"
  with assms(1) show ?thesis by simp
next
  fix m A B
  assume h: "truthy fromId" "truthy toId" "amountTruthy amount" "newDecimal amount = Some m"
    "fromId \<noteq> toId" "accounts s fromId = Some A" "accounts s toId = Some B"
    "status A = active" "status B = active" "m \<le> availableBalance A"
  from assms(2) h(4) have pos: "0 \<le> m" by simp
  from assms(1) h(6,7) have inv: "accountInvariant A" "accountInvariant B"
    by (auto simp: storeInvariant_def)
  show ?thesis
    unfolding internal_success [OF h] storeInvariant_def
    using assms(1) invariant_debit [OF inv(1) pos h(10)] invariant_credit [OF inv(2) pos]
    by (auto simp: storeInvariant_def)
qed

lemma invariant_kept_neft:
  assumes "storeInvariant s" and "\<And>m. newDecimal amount = Some m \<Longrightarrow> 0 \<le> m"
  shows "storeInvariant
    (fst (transferNeft fromId benAccount benName benBank benIfsc amount description s))"
  using neft_outcome [of fromId benAccount benName benBank benIfsc amount description s]
proof (elim disjE exE conjE)
  fix e
  assume "transferNeft fromId benAccount benName benBank benIfsc amount description s = (s, Inl e)"
  with assms(1) show ?thesis by simp
next
  fix m A
  assume h: "truthy fromId" "truthy benAccount" "truthy benName" "truthy benIfsc"
    "amountTruthy amount" "newDecimal amount = Some m"
    "accounts s fromId = Some A" "status A = active" "m \<le> availableBalance A"
  from assms(2) h(6) have pos: "0 \<le> m" by simp
  from assms(1) h(7) have inv: "accountInvariant A"
    by (auto simp: storeInvariant_def)
  show ?thesis
    unfolding neft_success [OF h] storeInvariant_def
    using assms(1) invariant_debit [OF inv pos h(9)]
    by (auto simp: storeInvariant_def)
qed

lemma invariant_kept_imps:
  assumes "storeInvariant s" and "\<And>m. newDecimal amount = Some m \<Longrightarrow> 0 \<le> m"
  shows "storeInvariant
    (fst (transferImps now fromId benAccount benName benIfsc amount description s))"
  using imps_outcome [of now fromId benAccount benName benIfsc amount description s]
proof (elim disjE exE conjE)
  fix e
  assume "transferImps now fromId benAccount benName benIfsc amount description s = (s, Inl e)"
  with assms(1) show ?thesis by simp
next
  fix m A
  assume h: "truthy fromId" "truthy benAccount" "truthy benName" "truthy benIfsc"
    "amountTruthy amount" "newDecimal amount = Some m" "m \<le> 500000"
    "accounts s fromId = Some A" "status A = active" "m \<le> availableBalance A"
  from assms(2) h(6) have pos: "0 \<le> m" by simp
  from assms(1) h(8) have inv: "accountInvariant A"
    by (auto simp: storeInvariant_def)
  show ?thesis
    unfolding imps_success [OF h] storeInvariant_def
    using assms(1) invariant_debit [OF inv pos h(10)]
    by (auto simp: storeInvariant_def)
qed

lemma invariant_kept_createAccount:
  assumes "storeInvariant s" and "\<And>d. initialDeposit = Some d \<Longrightarrow> 0 \<le> d"
  shows "storeInvariant
    (fst (createAccount newId accNo initialStatus now custId accType branch initialDeposit s))"
  using assms
  by (cases initialDeposit)
    (auto simp: createAccount_def createTransaction_def Let_def storeInvariant_def
      accountInvariant_def)

text \<open>
  A falsy amount (absent, or the number 0) is rejected by every rail before anything is
  read, and a truthy value that is no decimal makes the constructor throw before anything
  is written.
\<close>

lemma unusable_amount_rejected:
  assumes "\<not> amountTruthy amount \<or> newDecimal amount = None"
  shows "\<exists>e. transferInternal now fromId toId amount description s = (s, Inl e)"
    and "\<exists>e. transferNeft fromId benAccount benName benBank benIfsc amount description s =
              (s, Inl e)"
    and "\<exists>e. transferImps now fromId benAccount benName benIfsc amount description s =
              (s, Inl e)"
  using assms
  by (auto simp: transferInternal_def transferNeft_def transferImps_def split: option.splits)



text \<open>
  Claim C4 at a failing input. No rail checks the sign of the amount: with the number -50
  the internal transfer succeeds, credits the source (150000 becomes 150050), debits the
  destination (5000000 becomes 4999950) and writes both legs; the NEFT and the IMPS transfer
  succeed as well and raise the source balance by 50. The string "0", which is truthy, passes
  the guard that stops the number 0, and a transfer of nothing is recorded with two rows.
\<close>

theorem negative_amount_accepted:
  "\<not> isl (snd (transferInternal 7 ''acc1'' ''acc2'' (AmtNumber (- 50)) None exampleBank))
   \<and> map_option balance
       (accounts (fst (transferInternal 7 ''acc1'' ''acc2'' (AmtNumber (- 50)) None exampleBank))
          ''acc1'') = Some 150050
   \<and> map_option balance
       (accounts (fst (transferInternal 7 ''acc1'' ''acc2'' (AmtNumber (- 50)) None exampleBank))
          ''acc2'') = Some 4999950
   \<and> length (transactions
        (fst (transferInternal 7 ''acc1'' ''acc2'' (AmtNumber (- 50)) None exampleBank))) = 2
   \<and> \<not> isl (snd (transferNeft ''acc1'' ''50100200300'' ''R Iyer'' None ''HDFC0000123''
               (AmtNumber (- 50)) None exampleBank))
   \<and> map_option balance
       (accounts (fst (transferNeft ''acc1'' ''50100200300'' ''R Iyer'' None ''HDFC0000123''
               (AmtNumber (- 50)) None exampleBank)) ''acc1'') = Some 150050
   \<and> \<not> isl (snd (transferImps 7 ''acc1'' ''50100200300'' ''R Iyer'' ''HDFC0000123''
               (AmtNumber (- 50)) None exampleBank))
   \<and> map_option balance
       (accounts (fst (transferImps 7 ''acc1'' ''50100200300'' ''R Iyer'' ''HDFC0000123''
               (AmtNumber (- 50)) None exampleBank)) ''acc1'') = Some 150050
   \<and> \<not> isl (snd (transferInternal 7 ''acc1'' ''acc2'' (AmtString 0) None exampleBank))
   \<and> length (transactions
        (fst (transferInternal 7 ''acc1'' ''acc2'' (AmtString 0) None exampleBank))) = 2"
proof -
  have f: "truthy ''acc1''" "truthy ''50100200300''" "truthy ''R Iyer''" "truthy ''HDFC0000123''"
    by (simp_all add: truthy_def)
  have n: "amountTruthy (AmtNumber (- 50))" "newDecimal (AmtNumber (- 50)) = Some (- 50)"
    and z: "amountTruthy (AmtString 0)" "newDecimal (AmtString 0) = Some 0"
    by simp_all
  have le: "- 50 \<le> availableBalance seedAccount1" "0 \<le> availableBalance seedAccount1"
    "(- 50 :: rat) \<le> 500000"
    by (simp_all add: example_fields)
  note i = internal_success [OF example_fields(1,2) n example_fields(4)
      exampleBank_accounts(1,2) example_fields(7,8) le(1), where now = 7 and description = None]
  note i0 = internal_success [OF example_fields(1,2) z example_fields(4)
      exampleBank_accounts(1,2) example_fields(7,8) le(2), where now = 7 and description = None]
  note ne = neft_success [OF f n exampleBank_accounts(1) example_fields(7) le(1),
      where benBank = None and description = None]
  note im = imps_success [OF f n le(3) exampleBank_accounts(1) example_fields(7) le(1),
      where now = 7 and description = None]
  show ?thesis
    unfolding i i0 ne im
    by (simp add: example_fields exampleBank_accounts decrementBoth_def incrementBoth_def)
qed

theorem negative_amount_accepted_witness:
  "\<not> isl (snd (transferInternal 7 ''acc1'' ''acc2'' (AmtNumber (- 50)) None exampleBank))
   \<and> map_option balance
       (accounts (fst (transferInternal 7 ''acc1'' ''acc2'' (AmtNumber (- 50)) None exampleBank))
          ''acc2'') = Some 4999950"
  using negative_amount_accepted by blast

text \<open>
  Claim C2 at a failing input. Every account of the example bank satisfies the invariant. An
  internal transfer of -200000 from \<open>acc2\<close> to \<open>acc1\<close> passes the funds check (the available
  balance of the source is not below a negative amount), commits, and leaves \<open>acc1\<close> with
  balance and available balance -50000. Creating an account with an initial deposit of -100
  commits an account whose balance is -100. For amounts that are not negative the four
  operations keep the invariant (lemmas \<open>invariant_kept_internal\<close>, \<open>invariant_kept_neft\<close>,
  \<open>invariant_kept_imps\<close>, \<open>invariant_kept_createAccount\<close>).
\<close>

theorem invariant_broken_by_negative_amount:
  "accountInvariant seedAccount1 \<and> accountInvariant seedAccount2 \<and> accountInvariant frozenAccount
   \<and> \<not> isl (snd (transferInternal 7 ''acc2'' ''acc1'' (AmtNumber (- 200000)) None exampleBank))
   \<and> accounts (fst (transferInternal 7 ''acc2'' ''acc1'' (AmtNumber (- 200000)) None
          exampleBank)) ''acc1'' =
       Some (seedAccount1\<lparr>balance := - 50000, availableBalance := - 50000\<rparr>)
   \<and> \<not> accountInvariant (seedAccount1\<lparr>balance := - 50000, availableBalance := - 50000\<rparr>)
   \<and> createAccount ''acc9'' ''100112345678'' active 7 ''cust1'' ''savings'' ''MAIN''
         (Some (- 100)) exampleBank =
       (exampleBank\<lparr>accounts := (accounts exampleBank)(''acc9'' \<mapsto>
          \<lparr>accountNumber = ''100112345678'', customerId = ''cust1'', status = active,
           balance = - 100, availableBalance = - 100\<rparr>)\<rparr>,
        Inr \<lparr>accountNumber = ''100112345678'', customerId = ''cust1'', status = active,
           balance = - 100, availableBalance = - 100\<rparr>)
   \<and> \<not> accountInvariant \<lparr>accountNumber = ''100112345678'', customerId = ''cust1'',
         status = active, balance = - 100, availableBalance = - 100\<rparr>"
proof -
  have inv: "accountInvariant seedAccount1" "accountInvariant seedAccount2"
    "accountInvariant frozenAccount"
    by (simp_all add: accountInvariant_def seedAccount1_def seedAccount2_def frozenAccount_def)
  have n: "amountTruthy (AmtNumber (- 200000))"
    "newDecimal (AmtNumber (- 200000)) = Some (- 200000)"
    "- 200000 \<le> availableBalance seedAccount2"
    by (simp_all add: example_fields)
  note i = internal_success [OF example_fields(2,1) n(1,2) example_fields(6)
      exampleBank_accounts(2,1) example_fields(8,7) n(3), where now = 7 and description = None]
  have a: "\<not> isl (snd (transferInternal 7 ''acc2'' ''acc1'' (AmtNumber (- 200000)) None
      exampleBank))"
    unfolding i by simp
  have b: "accounts (fst (transferInternal 7 ''acc2'' ''acc1'' (AmtNumber (- 200000)) None
      exampleBank)) ''acc1'' =
       Some (seedAccount1\<lparr>balance := - 50000, availableBalance := - 50000\<rparr>)"
    unfolding i by (simp add: incrementBoth_def example_fields)
  have c: "\<not> accountInvariant (seedAccount1\<lparr>balance := - 50000, availableBalance := - 50000\<rparr>)"
    by (simp add: accountInvariant_def)
  have new: "createAccount ''acc9'' ''100112345678'' active 7 ''cust1'' ''savings'' ''MAIN''
               (Some (- 100)) exampleBank =
      (exampleBank\<lparr>accounts := (accounts exampleBank)(''acc9'' \<mapsto>
          \<lparr>accountNumber = ''100112345678'', customerId = ''cust1'', status = active,
           balance = - 100, availableBalance = - 100\<rparr>)\<rparr>,
       Inr \<lparr>accountNumber = ''100112345678'', customerId = ''cust1'', status = active,
           balance = - 100, availableBalance = - 100\<rparr>)"
    by (simp add: createAccount_def truthy_def exampleBank_def emptyDb_def Let_def)
  have d: "\<not> accountInvariant \<lparr>accountNumber = ''100112345678'', customerId = ''cust1'',
      status = active, balance = - 100, availableBalance = - 100\<rparr>"
    by (simp add: accountInvariant_def)
  from inv a b c new d show ?thesis by (intro conjI)
qed


theorem invariant_broken_by_negative_amount_witness:
  "accounts (fst (transferInternal 7 ''acc2'' ''acc1'' (AmtNumber (- 200000)) None
          exampleBank)) ''acc1'' =
       Some (seedAccount1\<lparr>balance := - 50000, availableBalance := - 50000\<rparr>)
   \<and> \<not> accountInvariant (seedAccount1\<lparr>balance := - 50000, availableBalance := - 50000\<rparr>)"
  using invariant_broken_by_negative_amount by blast

end
